theory Spec2Isabelle
  imports Main "HOL-Library.Word"
begin

section \<open>Data model of the datagram endpoint (pkg/tcpip/transport/internal/network/endpoint.go)\<close>

text \<open>
  Addresses are Go strings of bytes, NIC identifiers are int32, protocol numbers are
  uint32, TTL and TOS are uint8, Go's int is the 64-bit two's complement integer.
\<close>

type_synonym Address = string
type_synonym NICID = "32 word"
type_synonym NetworkProtocolNumber = "32 word"
type_synonym TransportProtocolNumber = "32 word"
type_synonym PacketOwner = nat

text \<open>
  The values of the interface tcpip.Error. The first twelve are the ones endpoint.go
  constructs itself; \<open>ErrExternal\<close> stands for any other error value that a collaborator
  (the stack, a route, a hook, the packet builder) hands back.
\<close>

datatype Error =
    ErrInvalidEndpointState
  | ErrInvalidOptionValue
  | ErrClosedForSend
  | ErrDestinationRequired
  | ErrNoRoute
  | ErrBroadcastDisabled
  | ErrNotConnected
  | ErrBadLocalAddress
  | ErrNotSupported
  | ErrUnknownProtocolOption
  | ErrUnknownDevice
  | ErrPortInUse
  | ErrExternal nat

text \<open>
  The field \<open>state\<close> is a uint32 that holds a transport.DatagramEndpointState. The four
  named constants are the four first constructors; \<open>DatagramEndpointStateOther w\<close> is a
  raw value \<open>w\<close> that equals none of the four constants (the zero value of an Endpoint
  that was never initialised is such a value).
\<close>

datatype DatagramEndpointState =
    DatagramEndpointStateInitial
  | DatagramEndpointStateBound
  | DatagramEndpointStateConnected
  | DatagramEndpointStateClosed
  | DatagramEndpointStateOther "32 word"

record FullAddress =
  NIC :: NICID
  Addr :: Address
  Port :: "16 word"

record TransportEndpointID =
  LocalPort :: "16 word"
  LocalAddress :: Address
  RemotePort :: "16 word"
  RemoteAddress :: Address

record TransportEndpointInfo =
  NetProto :: NetworkProtocolNumber
  TransProto :: TransportProtocolNumber
  ID :: TransportEndpointID
  BindNICID :: NICID
  BindAddr :: Address
  RegisterNICID :: NICID

text \<open>
  A *stack.Route as the endpoint sees it: \<open>RouteID\<close> is the identity of the object the
  pointer refers to, the other fields are what its accessor methods return.
\<close>

record Route =
  RouteID :: nat
  RouteNICID :: NICID
  RouteLocalAddress :: Address
  RouteRemoteAddress :: Address
  RouteNetProto :: NetworkProtocolNumber
  RouteDefaultTTL :: "8 word"
  RouteMaxHeaderLength :: "16 word"
  RouteRequiresTXTransportChecksum :: bool
  RouteIsOutboundBroadcast :: bool

record PacketBuffer =
  PacketID :: nat
  Owner :: "PacketOwner option"

record NetworkHeaderParams =
  Protocol :: TransportProtocolNumber
  TTL :: "8 word"
  TOS :: "8 word"

datatype multicastMembership =
  multicastMembership (mem_nicID: NICID) (mem_multicastAddr: Address)

text \<open>
  What the endpoint does to its collaborators, in the order it does it: calls of the
  stack's FindRoute (a successful call hands the caller a reference to the route),
  JoinGroup and LeaveGroup, Acquire and Release of a route's reference, and the two
  packet writes of a route.
\<close>

datatype Event =
    FindRouteCall NICID Address Address NetworkProtocolNumber bool
  | RouteAcquire Route
  | RouteRelease Route
  | JoinGroupCall NetworkProtocolNumber NICID Address
  | LeaveGroupCall NetworkProtocolNumber NICID Address
  | WritePacketCall Route NetworkHeaderParams PacketBuffer
  | WriteHeaderIncludedPacketCall Route PacketBuffer

text \<open>
  The collaborators are not part of endpoint.go; they are parameters of the model.
  \<open>Decls\<close> holds the constants and pure functions of the packages header, tcpip and stack
  that the endpoint uses, \<open>Stack\<close> what the *stack.Stack and its routes answer, and
  \<open>SocketOptions\<close> what the getters of *tcpip.SocketOptions return. Every operation takes
  the environment of the moment it is called in, so the answers of the stack may change
  from one call to the next.
\<close>

record Decls =
  IPv4ProtocolNumber :: NetworkProtocolNumber
  IPv6ProtocolNumber :: NetworkProtocolNumber
  IPv4Broadcast :: Address
  IsV4MulticastAddress :: "Address \<Rightarrow> bool"
  IsV6MulticastAddress :: "Address \<Rightarrow> bool"
  Unspecified :: "Address \<Rightarrow> bool"
  PMTUDiscoveryDont :: "64 word"
  AddrNetProtoLocked ::
    "TransportEndpointInfo \<Rightarrow> FullAddress \<Rightarrow> bool \<Rightarrow> Error + (FullAddress \<times> NetworkProtocolNumber)"

record Stack =
  FindRoute ::
    "NICID \<Rightarrow> Address \<Rightarrow> Address \<Rightarrow> NetworkProtocolNumber \<Rightarrow> bool \<Rightarrow> Error + Route"
  CheckLocalAddress :: "NICID \<Rightarrow> NetworkProtocolNumber \<Rightarrow> Address \<Rightarrow> NICID"
  CheckNIC :: "NICID \<Rightarrow> bool"
  JoinGroup :: "NetworkProtocolNumber \<Rightarrow> NICID \<Rightarrow> Address \<Rightarrow> Error option"
  LeaveGroup :: "NetworkProtocolNumber \<Rightarrow> NICID \<Rightarrow> Address \<Rightarrow> Error option"
  IsSubnetBroadcast :: "NICID \<Rightarrow> NetworkProtocolNumber \<Rightarrow> Address \<Rightarrow> bool"
  WritePacket :: "Route \<Rightarrow> NetworkHeaderParams \<Rightarrow> PacketBuffer \<Rightarrow> Error option"
  WriteHeaderIncludedPacket :: "Route \<Rightarrow> PacketBuffer \<Rightarrow> Error option"

record SocketOptions =
  GetBindToDevice :: "32 word"
  GetBroadcast :: bool
  GetHeaderIncluded :: bool
  GetMulticastLoop :: bool
  GetV6Only :: bool

record Env =
  decls :: Decls
  stack :: Stack
  ops :: SocketOptions

text \<open>
  The struct Endpoint without its mutex and without the two pointers \<open>stack\<close> and \<open>ops\<close>,
  which live in the environment. \<open>route\<close> is a pointer that may be nil. The Go map
  \<open>multicastMemberships\<close> is \<open>None\<close> when nil and otherwise the list of its keys, each key
  once; the order of the list is the order in which a \<open>range\<close> visits them.
\<close>

record Endpoint =
  state :: DatagramEndpointState
  writeShutdown :: bool
  info :: TransportEndpointInfo
  effectiveNetProto :: NetworkProtocolNumber
  route :: "Route option"
  ttl :: "8 word"
  multicastTTL :: "8 word"
  multicastAddr :: Address
  multicastNICID :: NICID
  multicastMemberships :: "multicastMembership list option"
  sendTOS :: "8 word"
  owner :: "PacketOwner option"

text \<open>A Go panic (an explicit one, a nil dereference, a write to a nil map) or a return.\<close>

datatype 'a Outcome = Panic | Done 'a

section \<open>Go maps as key lists\<close>

definition map_has :: "'k \<Rightarrow> 'k list option \<Rightarrow> bool" where
  "map_has k m = (case m of None \<Rightarrow> False | Some ks \<Rightarrow> k \<in> set ks)"

definition map_range :: "'k list option \<Rightarrow> 'k list" where
  "map_range m = (case m of None \<Rightarrow> [] | Some ks \<Rightarrow> ks)"

definition map_store :: "'k \<Rightarrow> 'k list option \<Rightarrow> 'k list option Outcome" where
  "map_store k m =
     (case m of
        None \<Rightarrow> Panic
      | Some ks \<Rightarrow> Done (Some (if k \<in> set ks then ks else ks @ [k])))"

definition map_delete :: "'k \<Rightarrow> 'k list option \<Rightarrow> 'k list option" where
  "map_delete k m = (case m of None \<Rightarrow> None | Some ks \<Rightarrow> Some (removeAll k ks))"

section \<open>Init, Close, Disconnect, Shutdown\<close>

definition zeroID :: TransportEndpointID where
  "zeroID = \<lparr>LocalPort = 0, LocalAddress = '''', RemotePort = 0, RemoteAddress = ''''\<rparr>"

text \<open>The zero value of the struct, as Go allocates it.\<close>

definition zeroEndpoint :: Endpoint where
  "zeroEndpoint =
     \<lparr>state = DatagramEndpointStateOther 0,
      writeShutdown = False,
      info = \<lparr>NetProto = 0, TransProto = 0, ID = zeroID, BindNICID = 0, BindAddr = '''',
              RegisterNICID = 0\<rparr>,
      effectiveNetProto = 0,
      route = None,
      ttl = 0,
      multicastTTL = 0,
      multicastAddr = '''',
      multicastNICID = 0,
      multicastMemberships = None,
      sendTOS = 0,
      owner = None\<rparr>"

definition Init ::
  "Env \<Rightarrow> NetworkProtocolNumber \<Rightarrow> TransportProtocolNumber \<Rightarrow> Endpoint \<Rightarrow> Endpoint Outcome" where
  "Init env netProto transProto e =
     (if multicastMemberships e \<noteq> None then Panic
      else if netProto \<noteq> IPv4ProtocolNumber (decls env)
              \<and> netProto \<noteq> IPv6ProtocolNumber (decls env) then Panic
      else Done
        \<lparr>state = DatagramEndpointStateInitial,
         writeShutdown = False,
         info = \<lparr>NetProto = netProto, TransProto = transProto, ID = zeroID, BindNICID = 0,
                 BindAddr = '''', RegisterNICID = 0\<rparr>,
         effectiveNetProto = netProto,
         route = None,
         ttl = 0,
         multicastTTL = 1,
         multicastAddr = '''',
         multicastNICID = 0,
         multicastMemberships = Some [],
         sendTOS = 0,
         owner = None\<rparr>)"

definition Close :: "Endpoint \<Rightarrow> Endpoint \<times> Event list" where
  "Close e =
     (if state e = DatagramEndpointStateClosed then (e, [])
      else
        let leaves = map (\<lambda>mem. LeaveGroupCall (NetProto (info e)) (mem_nicID mem) (mem_multicastAddr mem))
                         (map_range (multicastMemberships e));
            e1 = e\<lparr>multicastMemberships := Some []\<rparr>;
            (e2, released) =
               (case route e1 of
                  Some r \<Rightarrow> (e1\<lparr>route := None\<rparr>, [RouteRelease r])
                | None \<Rightarrow> (e1, []))
        in (e2\<lparr>state := DatagramEndpointStateClosed\<rparr>, leaves @ released))"

definition Disconnect :: "Endpoint \<Rightarrow> (Endpoint \<times> Event list) Outcome" where
  "Disconnect e =
     (if state e \<noteq> DatagramEndpointStateConnected then Done (e, [])
      else
        let e1 =
              (if BindNICID (info e) \<noteq> 0 \<or> LocalAddress (ID (info e)) = ''''
               then e\<lparr>info := (info e)\<lparr>ID := zeroID\<lparr>LocalAddress := LocalAddress (ID (info e))\<rparr>\<rparr>,
                      state := DatagramEndpointStateBound\<rparr>
               else e\<lparr>info := (info e)\<lparr>ID := zeroID\<rparr>,
                      state := DatagramEndpointStateInitial\<rparr>)
        in (case route e1 of
              None \<Rightarrow> Panic
            | Some r \<Rightarrow> Done (e1\<lparr>route := None\<rparr>, [RouteRelease r])))"

definition Shutdown :: "Endpoint \<Rightarrow> (Error option \<times> Endpoint) Outcome" where
  "Shutdown e =
     (case state e of
        DatagramEndpointStateInitial \<Rightarrow> Done (Some ErrNotConnected, e)
      | DatagramEndpointStateClosed \<Rightarrow> Done (Some ErrNotConnected, e)
      | DatagramEndpointStateBound \<Rightarrow> Done (None, e\<lparr>writeShutdown := True\<rparr>)
      | DatagramEndpointStateConnected \<Rightarrow> Done (None, e\<lparr>writeShutdown := True\<rparr>)
      | DatagramEndpointStateOther w \<Rightarrow> Panic)"

section \<open>Address normalisation and route resolution\<close>

definition checkV4MappedLocked ::
  "Env \<Rightarrow> Endpoint \<Rightarrow> FullAddress \<Rightarrow> Error + (FullAddress \<times> NetworkProtocolNumber)" where
  "checkV4MappedLocked env e addr =
     (case AddrNetProtoLocked (decls env) (info e) addr (GetV6Only (ops env)) of
        Inl err \<Rightarrow> Inl err
      | Inr (unwrapped, netProto) \<Rightarrow> Inr (unwrapped, netProto))"

definition isBroadcastOrMulticast ::
  "Env \<Rightarrow> NICID \<Rightarrow> NetworkProtocolNumber \<Rightarrow> Address \<Rightarrow> bool" where
  "isBroadcastOrMulticast env nicID netProto addr =
     (addr = IPv4Broadcast (decls env)
      \<or> IsV4MulticastAddress (decls env) addr
      \<or> IsV6MulticastAddress (decls env) addr
      \<or> IsSubnetBroadcast (stack env) nicID netProto addr)"

definition connectRoute ::
  "Env \<Rightarrow> Endpoint \<Rightarrow> NICID \<Rightarrow> FullAddress \<Rightarrow> NetworkProtocolNumber
     \<Rightarrow> (Error + (Route \<times> NICID)) \<times> Event list" where
  "connectRoute env e nicID addr netProto =
     (let localAddr = LocalAddress (ID (info e));
          localAddr = (if isBroadcastOrMulticast env nicID netProto localAddr then ''''
                       else localAddr);
          multicast = (IsV4MulticastAddress (decls env) (Addr addr)
                       \<or> IsV6MulticastAddress (decls env) (Addr addr));
          nicID = (if multicast \<and> nicID = 0 then multicastNICID e else nicID);
          localAddr = (if multicast \<and> localAddr = '''' \<and> nicID = 0 then multicastAddr e
                       else localAddr);
          call = FindRouteCall nicID localAddr (Addr addr) netProto (GetMulticastLoop (ops env))
      in (case FindRoute (stack env) nicID localAddr (Addr addr) netProto
                 (GetMulticastLoop (ops env)) of
            Inl err \<Rightarrow> (Inl err, [call])
          | Inr r \<Rightarrow> (Inr (r, nicID), [call])))"

section \<open>Connect and Bind\<close>

text \<open>
  A hook is the function value passed to ConnectAndThen or BindAndThen; it answers nil
  (\<open>None\<close>) or an error.
\<close>

type_synonym ConnectHook =
  "NetworkProtocolNumber \<Rightarrow> TransportEndpointID \<Rightarrow> TransportEndpointID \<Rightarrow> Error option"
type_synonym BindHook = "NetworkProtocolNumber \<Rightarrow> Address \<Rightarrow> Error option"

definition ConnectAndThen ::
  "Env \<Rightarrow> FullAddress \<Rightarrow> ConnectHook \<Rightarrow> Endpoint \<Rightarrow> Error option \<times> Endpoint \<times> Event list" where
  "ConnectAndThen env addr0 f e =
     (let addr = addr0\<lparr>Port := 0\<rparr>;
          nicID = NIC addr;
          pinned =
            (case state e of
               DatagramEndpointStateInitial \<Rightarrow> Inr nicID
             | DatagramEndpointStateBound \<Rightarrow>
                 (if BindNICID (info e) = 0 then Inr nicID
                  else if nicID \<noteq> 0 \<and> nicID \<noteq> BindNICID (info e)
                  then Inl ErrInvalidEndpointState
                  else Inr (BindNICID (info e)))
             | DatagramEndpointStateConnected \<Rightarrow>
                 (if BindNICID (info e) = 0 then Inr nicID
                  else if nicID \<noteq> 0 \<and> nicID \<noteq> BindNICID (info e)
                  then Inl ErrInvalidEndpointState
                  else Inr (BindNICID (info e)))
             | DatagramEndpointStateClosed \<Rightarrow> Inl ErrInvalidEndpointState
             | DatagramEndpointStateOther w \<Rightarrow> Inl ErrInvalidEndpointState)
      in case pinned of
           Inl err \<Rightarrow> (Some err, e, [])
         | Inr nicID \<Rightarrow>
             (case checkV4MappedLocked env e addr of
                Inl err \<Rightarrow> (Some err, e, [])
              | Inr (addr, netProto) \<Rightarrow>
                  (case connectRoute env e nicID addr netProto of
                     (Inl err, evs) \<Rightarrow> (Some err, e, evs)
                   | (Inr (r, nicID), evs) \<Rightarrow>
                       (let id0 = zeroID\<lparr>LocalAddress := LocalAddress (ID (info e)),
                                         RemoteAddress := RouteRemoteAddress r\<rparr>;
                            nextID = (if state e = DatagramEndpointStateInitial
                                      then id0\<lparr>LocalAddress := RouteLocalAddress r\<rparr>
                                      else id0)
                        in case f (RouteNetProto r) (ID (info e)) nextID of
                             Some err \<Rightarrow> (Some err, e, evs)
                           | None \<Rightarrow>
                               (None,
                                e\<lparr>route := Some r,
                                  info := (info e)\<lparr>ID := nextID, RegisterNICID := nicID\<rparr>,
                                  effectiveNetProto := netProto,
                                  state := DatagramEndpointStateConnected\<rparr>,
                                evs @ (case route e of
                                         Some old \<Rightarrow> [RouteRelease old]
                                       | None \<Rightarrow> []))))))"

definition Connect :: "Env \<Rightarrow> FullAddress \<Rightarrow> Endpoint \<Rightarrow> Error option \<times> Endpoint \<times> Event list" where
  "Connect env addr e = ConnectAndThen env addr (\<lambda>_ _ _. None) e"

definition BindAndThen ::
  "Env \<Rightarrow> FullAddress \<Rightarrow> BindHook \<Rightarrow> Endpoint \<Rightarrow> Error option \<times> Endpoint" where
  "BindAndThen env addr0 f e =
     (let addr = addr0\<lparr>Port := 0\<rparr>
      in if state e \<noteq> DatagramEndpointStateInitial then (Some ErrInvalidEndpointState, e)
         else
           (case checkV4MappedLocked env e addr of
              Inl err \<Rightarrow> (Some err, e)
            | Inr (addr, netProto) \<Rightarrow>
                (let nicID = NIC addr;
                     lookup = (length (Addr addr) \<noteq> 0
                               \<and> \<not> isBroadcastOrMulticast env (NIC addr) netProto (Addr addr));
                     nicID = (if lookup then CheckLocalAddress (stack env) nicID netProto (Addr addr)
                              else nicID)
                 in if lookup \<and> nicID = 0 then (Some ErrBadLocalAddress, e)
                    else
                      (case f netProto (Addr addr) of
                         Some err \<Rightarrow> (Some err, e)
                       | None \<Rightarrow>
                           (None,
                            e\<lparr>info := (info e)\<lparr>ID := zeroID\<lparr>LocalAddress := Addr addr\<rparr>,
                                               BindNICID := nicID,
                                               RegisterNICID := nicID,
                                               BindAddr := Addr addr\<rparr>,
                              effectiveNetProto := netProto,
                              state := DatagramEndpointStateBound\<rparr>)))))"

definition Bind :: "Env \<Rightarrow> FullAddress \<Rightarrow> Endpoint \<Rightarrow> Error option \<times> Endpoint" where
  "Bind env addr e = BindAndThen env addr (\<lambda>_ _. None) e"

definition SetOwner :: "PacketOwner option \<Rightarrow> Endpoint \<Rightarrow> Endpoint" where
  "SetOwner new_owner e = e\<lparr>owner := new_owner\<rparr>"

section \<open>Write\<close>

record WriteOptions =
  To :: "FullAddress option"
  More :: bool

type_synonym PacketBuilder =
  "NetworkProtocolNumber \<Rightarrow> Address \<Rightarrow> Address \<Rightarrow> 64 word \<Rightarrow> bool \<Rightarrow> Error + PacketBuffer"

text \<open>
  The function literal that Write calls under the read lock: it answers the route to
  send on, the owner, the TTL and the TOS, or an error. It panics where the Go code
  dereferences a nil route.
\<close>

definition Write_locked ::
  "Env \<Rightarrow> WriteOptions \<Rightarrow> Endpoint
     \<Rightarrow> ((Error + (Route \<times> PacketOwner option \<times> 8 word \<times> 8 word)) \<times> Event list) Outcome" where
  "Write_locked env opts e =
     (if state e = DatagramEndpointStateClosed then Done (Inl ErrInvalidEndpointState, [])
      else if writeShutdown e then Done (Inl ErrClosedForSend, [])
      else
        (case To opts of
           None \<Rightarrow>
             (if state e \<noteq> DatagramEndpointStateConnected
              then Done (Inl ErrDestinationRequired, [])
              else
                (case route e of
                   None \<Rightarrow> Panic
                 | Some r \<Rightarrow>
                     (let ttl0 = ttl e;
                          ttl1 = (if IsV4MulticastAddress (decls env) (RouteRemoteAddress r)
                                     \<or> IsV6MulticastAddress (decls env) (RouteRemoteAddress r)
                                  then multicastTTL e
                                  else if ttl0 = 0 then RouteDefaultTTL r
                                  else ttl0)
                      in Done (Inr (r, owner e, ttl1, sendTOS e), [RouteAcquire r]))))
         | Some to \<Rightarrow>
             (let nicID0 = NIC to;
                  nicID1 = (if nicID0 = 0 then GetBindToDevice (ops env) else nicID0)
              in if BindNICID (info e) \<noteq> 0 \<and> nicID1 \<noteq> 0 \<and> nicID1 \<noteq> BindNICID (info e)
                 then Done (Inl ErrNoRoute, [])
                 else
                   (let nicID = (if BindNICID (info e) \<noteq> 0 then BindNICID (info e) else nicID1)
                    in case checkV4MappedLocked env e to of
                         Inl err \<Rightarrow> Done (Inl err, [])
                       | Inr (dst, netProto) \<Rightarrow>
                           (case connectRoute env e nicID dst netProto of
                              (Inl err, evs) \<Rightarrow> Done (Inl err, evs)
                            | (Inr (r, _), evs) \<Rightarrow>
                                (let ttl0 = ttl e;
                                     ttl1 =
                                       (if IsV4MulticastAddress (decls env) (RouteRemoteAddress r)
                                           \<or> IsV6MulticastAddress (decls env) (RouteRemoteAddress r)
                                        then multicastTTL e
                                        else if ttl0 = 0 then RouteDefaultTTL r
                                        else ttl0)
                                 in Done (Inr (r, owner e, ttl1, sendTOS e), evs)))))))"

text \<open>
  Write answers the int64 count (always 0) and the error; the endpoint itself is only
  read. The deferred Release of the route is the last event of every path that got a
  route.
\<close>

definition Write ::
  "Env \<Rightarrow> PacketBuilder \<Rightarrow> WriteOptions \<Rightarrow> Endpoint
     \<Rightarrow> ((64 word \<times> Error option) \<times> Event list) Outcome" where
  "Write env pktf opts e =
     (if More opts then Done ((0, Some ErrInvalidOptionValue), [])
      else
        (case Write_locked env opts e of
           Panic \<Rightarrow> Panic
         | Done (Inl err, evs) \<Rightarrow> Done ((0, Some err), evs)
         | Done (Inr (r, own, ttl1, tos), evs) \<Rightarrow>
             (if \<not> GetBroadcast (ops env) \<and> RouteIsOutboundBroadcast r
              then Done ((0, Some ErrBroadcastDisabled), evs @ [RouteRelease r])
              else
                (case pktf (RouteNetProto r) (RouteLocalAddress r) (RouteRemoteAddress r)
                           (ucast (RouteMaxHeaderLength r)) (RouteRequiresTXTransportChecksum r) of
                   Inl err \<Rightarrow> Done ((0, Some err), evs @ [RouteRelease r])
                 | Inr pkt \<Rightarrow>
                     (if GetHeaderIncluded (ops env)
                      then Done ((0, WriteHeaderIncludedPacket (stack env) r pkt),
                                 evs @ [WriteHeaderIncludedPacketCall r pkt, RouteRelease r])
                      else
                        (let pkt1 = pkt\<lparr>Owner := own\<rparr>;
                             params = \<lparr>Protocol = TransProto (info e), TTL = ttl1, TOS = tos\<rparr>
                         in Done ((0, WritePacket (stack env) r params pkt1),
                                  evs @ [WritePacketCall r params pkt1, RouteRelease r])))))))"

section \<open>Socket options\<close>

text \<open>
  tcpip.SockOptInt is an int with named constants; the five that endpoint.go names are
  constructors, \<open>OtherSockOptInt w\<close> is any value \<open>w\<close> that equals none of them.
\<close>

datatype SockOptInt =
    MTUDiscoverOption
  | MulticastTTLOption
  | TTLOption
  | IPv4TOSOption
  | IPv6TrafficClassOption
  | OtherSockOptInt "64 word"

definition SetSockOptInt ::
  "Env \<Rightarrow> SockOptInt \<Rightarrow> 64 word \<Rightarrow> Endpoint \<Rightarrow> Error option \<times> Endpoint" where
  "SetSockOptInt env opt v e =
     (case opt of
        MTUDiscoverOption \<Rightarrow>
          (if v \<noteq> PMTUDiscoveryDont (decls env) then (Some ErrNotSupported, e) else (None, e))
      | MulticastTTLOption \<Rightarrow> (None, e\<lparr>multicastTTL := ucast v\<rparr>)
      | TTLOption \<Rightarrow> (None, e\<lparr>ttl := ucast v\<rparr>)
      | IPv4TOSOption \<Rightarrow> (None, e\<lparr>sendTOS := ucast v\<rparr>)
      | IPv6TrafficClassOption \<Rightarrow> (None, e\<lparr>sendTOS := ucast v\<rparr>)
      | OtherSockOptInt w \<Rightarrow> (None, e))"

definition GetSockOptInt :: "Env \<Rightarrow> SockOptInt \<Rightarrow> Endpoint \<Rightarrow> 64 word \<times> Error option" where
  "GetSockOptInt env opt e =
     (case opt of
        MTUDiscoverOption \<Rightarrow> (PMTUDiscoveryDont (decls env), None)
      | MulticastTTLOption \<Rightarrow> (ucast (multicastTTL e), None)
      | TTLOption \<Rightarrow> (ucast (ttl e), None)
      | IPv4TOSOption \<Rightarrow> (ucast (sendTOS e), None)
      | IPv6TrafficClassOption \<Rightarrow> (ucast (sendTOS e), None)
      | OtherSockOptInt w \<Rightarrow> (- 1, Some ErrUnknownProtocolOption))"

text \<open>
  The dynamic types that SetSockOpt switches on, with the fields it reads:
  MulticastInterfaceOption (NIC, InterfaceAddr), AddMembershipOption and
  RemoveMembershipOption (NIC, InterfaceAddr, MulticastAddr), SocketDetachFilterOption;
  \<open>OtherSettableSocketOption\<close> is a value of any other type.
\<close>

datatype SettableSocketOption =
    MulticastInterfaceOption NICID Address
  | AddMembershipOption NICID Address Address
  | RemoveMembershipOption NICID Address Address
  | SocketDetachFilterOption
  | OtherSettableSocketOption nat

text \<open>
  The statements that resolve the NIC of a membership option (lines 580 to 591 for
  AddMembershipOption, the same statements at lines 616 to 626 for
  RemoveMembershipOption): the NIC they end with and the events of the throwaway route
  lookup.
\<close>

definition membershipNIC ::
  "Env \<Rightarrow> Endpoint \<Rightarrow> NICID \<Rightarrow> Address \<Rightarrow> Address \<Rightarrow> NICID \<times> Event list" where
  "membershipNIC env e vNIC vInterfaceAddr vMulticastAddr =
     (let call = FindRouteCall 0 '''' vMulticastAddr (NetProto (info e)) False
      in if Unspecified (decls env) vInterfaceAddr
         then (if vNIC = 0
               then (case FindRoute (stack env) 0 '''' vMulticastAddr (NetProto (info e)) False of
                       Inr r \<Rightarrow> (RouteNICID r, [call, RouteRelease r])
                     | Inl err \<Rightarrow> (vNIC, [call]))
               else (vNIC, []))
         else (CheckLocalAddress (stack env) vNIC (NetProto (info e)) vInterfaceAddr, []))"

definition SetSockOpt ::
  "Env \<Rightarrow> SettableSocketOption \<Rightarrow> Endpoint \<Rightarrow> (Error option \<times> Endpoint \<times> Event list) Outcome" where
  "SetSockOpt env opt e =
     (case opt of
        MulticastInterfaceOption vNIC vInterfaceAddr \<Rightarrow>
          (case checkV4MappedLocked env e \<lparr>NIC = 0, Addr = vInterfaceAddr, Port = 0\<rparr> of
             Inl err \<Rightarrow> Done (Some err, e, [])
           | Inr (fa, netProto) \<Rightarrow>
               (let nic = vNIC;
                    addr = Addr fa;
                    store = (\<lambda>nic. if BindNICID (info e) \<noteq> 0 \<and> BindNICID (info e) \<noteq> nic
                                    then Done (Some ErrInvalidEndpointState, e, [])
                                    else Done (None, e\<lparr>multicastNICID := nic, multicastAddr := addr\<rparr>, []))
                in if nic = 0 \<and> addr = ''''
                   then Done (None, e\<lparr>multicastAddr := '''', multicastNICID := 0\<rparr>, [])
                   else if nic \<noteq> 0
                   then (if \<not> CheckNIC (stack env) nic then Done (Some ErrBadLocalAddress, e, [])
                         else store nic)
                   else (let nic = CheckLocalAddress (stack env) 0 netProto addr
                         in if nic = 0 then Done (Some ErrBadLocalAddress, e, [])
                            else store nic)))
      | AddMembershipOption vNIC vInterfaceAddr vMulticastAddr \<Rightarrow>
          (if \<not> IsV4MulticastAddress (decls env) vMulticastAddr
              \<and> \<not> IsV6MulticastAddress (decls env) vMulticastAddr
           then Done (Some ErrInvalidOptionValue, e, [])
           else
             (let (nicID, evs) = membershipNIC env e vNIC vInterfaceAddr vMulticastAddr
              in if nicID = 0 then Done (Some ErrUnknownDevice, e, evs)
                 else
                   (let memToInsert = multicastMembership nicID vMulticastAddr
                    in if map_has memToInsert (multicastMemberships e)
                       then Done (Some ErrPortInUse, e, evs)
                       else
                         (case JoinGroup (stack env) (NetProto (info e)) nicID vMulticastAddr of
                            Some err \<Rightarrow>
                              Done (Some err, e,
                                    evs @ [JoinGroupCall (NetProto (info e)) nicID vMulticastAddr])
                          | None \<Rightarrow>
                              (case map_store memToInsert (multicastMemberships e) of
                                 Panic \<Rightarrow> Panic
                               | Done m \<Rightarrow>
                                   Done (None, e\<lparr>multicastMemberships := m\<rparr>,
                                         evs @ [JoinGroupCall (NetProto (info e)) nicID
                                                  vMulticastAddr]))))))
      | RemoveMembershipOption vNIC vInterfaceAddr vMulticastAddr \<Rightarrow>
          (if \<not> IsV4MulticastAddress (decls env) vMulticastAddr
              \<and> \<not> IsV6MulticastAddress (decls env) vMulticastAddr
           then Done (Some ErrInvalidOptionValue, e, [])
           else
             (let (nicID, evs) = membershipNIC env e vNIC vInterfaceAddr vMulticastAddr
              in if nicID = 0 then Done (Some ErrUnknownDevice, e, evs)
                 else
                   (let memToRemove = multicastMembership nicID vMulticastAddr
                    in if \<not> map_has memToRemove (multicastMemberships e)
                       then Done (Some ErrBadLocalAddress, e, evs)
                       else
                         (case LeaveGroup (stack env) (NetProto (info e)) nicID vMulticastAddr of
                            Some err \<Rightarrow>
                              Done (Some err, e,
                                    evs @ [LeaveGroupCall (NetProto (info e)) nicID vMulticastAddr])
                          | None \<Rightarrow>
                              Done (None,
                                    e\<lparr>multicastMemberships :=
                                        map_delete memToRemove (multicastMemberships e)\<rparr>,
                                    evs @ [LeaveGroupCall (NetProto (info e)) nicID
                                             vMulticastAddr])))))
      | SocketDetachFilterOption \<Rightarrow> Done (None, e, [])
      | OtherSettableSocketOption n \<Rightarrow> Done (None, e, []))"

text \<open>
  GetSockOpt writes its answer through the pointer it is given: the result holds the
  value written (NIC, InterfaceAddr), if any, next to the error.
\<close>

datatype GettableSocketOption =
    GetMulticastInterfaceOption
  | OtherGettableSocketOption nat

definition GetSockOpt ::
  "GettableSocketOption \<Rightarrow> Endpoint \<Rightarrow> Error option \<times> (NICID \<times> Address) option" where
  "GetSockOpt opt e =
     (case opt of
        GetMulticastInterfaceOption \<Rightarrow> (None, Some (multicastNICID e, multicastAddr e))
      | OtherGettableSocketOption n \<Rightarrow> (Some ErrUnknownProtocolOption, None))"

section \<open>Sequences of public operations\<close>

datatype Op =
    OpInit NetworkProtocolNumber TransportProtocolNumber
  | OpBind FullAddress
  | OpBindAndThen FullAddress BindHook
  | OpConnect FullAddress
  | OpConnectAndThen FullAddress ConnectHook
  | OpDisconnect
  | OpShutdown
  | OpWrite PacketBuilder WriteOptions
  | OpClose
  | OpSetOwner "PacketOwner option"
  | OpSetSockOptInt SockOptInt "64 word"
  | OpGetSockOptInt SockOptInt
  | OpSetSockOpt SettableSocketOption
  | OpGetSockOpt GettableSocketOption

text \<open>
  One call of a public method in the environment of that moment: the endpoint after the
  call and the events of the call, or the panic.
\<close>

definition step :: "Env \<Rightarrow> Op \<Rightarrow> Endpoint \<Rightarrow> (Endpoint \<times> Event list) Outcome" where
  "step env op e =
     (case op of
        OpInit netProto transProto \<Rightarrow>
          (case Init env netProto transProto e of Panic \<Rightarrow> Panic | Done e' \<Rightarrow> Done (e', []))
      | OpBind addr \<Rightarrow> Done (snd (Bind env addr e), [])
      | OpBindAndThen addr f \<Rightarrow> Done (snd (BindAndThen env addr f e), [])
      | OpConnect addr \<Rightarrow> Done (snd (Connect env addr e))
      | OpConnectAndThen addr f \<Rightarrow> Done (snd (ConnectAndThen env addr f e))
      | OpDisconnect \<Rightarrow> Disconnect e
      | OpShutdown \<Rightarrow> (case Shutdown e of Panic \<Rightarrow> Panic | Done (err, e') \<Rightarrow> Done (e', []))
      | OpWrite pktf opts \<Rightarrow>
          (case Write env pktf opts e of Panic \<Rightarrow> Panic | Done (res, evs) \<Rightarrow> Done (e, evs))
      | OpClose \<Rightarrow> Done (Close e)
      | OpSetOwner new_owner \<Rightarrow> Done (SetOwner new_owner e, [])
      | OpSetSockOptInt opt v \<Rightarrow> Done (snd (SetSockOptInt env opt v e), [])
      | OpGetSockOptInt opt \<Rightarrow> Done (e, [])
      | OpSetSockOpt opt \<Rightarrow>
          (case SetSockOpt env opt e of Panic \<Rightarrow> Panic | Done (err, e', evs) \<Rightarrow> Done (e', evs))
      | OpGetSockOpt opt \<Rightarrow> Done (e, []))"

text \<open>A sequence of calls, each with its environment; a panic ends the run.\<close>

fun run :: "(Env \<times> Op) list \<Rightarrow> Endpoint \<Rightarrow> (Endpoint \<times> Event list) Outcome" where
  "run [] e = Done (e, [])"
| "run ((env, op) # rest) e =
     (case step env op e of
        Panic \<Rightarrow> Panic
      | Done (e1, evs1) \<Rightarrow>
          (case run rest e1 of
             Panic \<Rightarrow> Panic
           | Done (e2, evs2) \<Rightarrow> Done (e2, evs1 @ evs2)))"

section \<open>The invariant of an initialised endpoint\<close>

definition endpointInvariant :: "Endpoint \<Rightarrow> bool" where
  "endpointInvariant e =
     (((route e \<noteq> None) = (state e = DatagramEndpointStateConnected))
      \<and> (case state e of DatagramEndpointStateOther w \<Rightarrow> False | _ \<Rightarrow> True)
      \<and> (case multicastMemberships e of None \<Rightarrow> False | Some ks \<Rightarrow> distinct ks))"

section \<open>A test double of the stack and a freshly initialised endpoint\<close>

definition testRoute :: "NICID \<Rightarrow> Address \<Rightarrow> Address \<Rightarrow> NetworkProtocolNumber \<Rightarrow> Route" where
  "testRoute nic l r p =
     \<lparr>RouteID = 1, RouteNICID = (if nic = 0 then 1 else nic),
      RouteLocalAddress = (if l = '''' then [CHR 0x0A, CHR 0x00, CHR 0x00, CHR 0x01] else l),
      RouteRemoteAddress = r, RouteNetProto = p, RouteDefaultTTL = 64,
      RouteMaxHeaderLength = 20, RouteRequiresTXTransportChecksum = True,
      RouteIsOutboundBroadcast = False\<rparr>"

definition testEnv :: Env where
  "testEnv =
     \<lparr>decls = \<lparr>IPv4ProtocolNumber = 0x0800, IPv6ProtocolNumber = 0x86DD,
               IPv4Broadcast = [CHR 0xFF, CHR 0xFF, CHR 0xFF, CHR 0xFF],
               IsV4MulticastAddress = (\<lambda>a. length a = 4 \<and> (of_char (hd a) :: nat) div 16 = 14),
               IsV6MulticastAddress = (\<lambda>a. length a = 16 \<and> hd a = CHR 0xFF),
               Unspecified = (\<lambda>a. list_all (\<lambda>c. c = CHR 0x00) a),
               PMTUDiscoveryDont = 1,
               AddrNetProtoLocked = (\<lambda>i a v6only. Inr (a, NetProto i))\<rparr>,
      stack = \<lparr>FindRoute = (\<lambda>nic l r p loop. if r = '''' then Inl ErrNoRoute
                                            else Inr (testRoute nic l r p)),
               CheckLocalAddress = (\<lambda>nic p a. if nic = 0 then 1 else nic),
               CheckNIC = (\<lambda>nic. True),
               JoinGroup = (\<lambda>p nic a. None),
               LeaveGroup = (\<lambda>p nic a. None),
               IsSubnetBroadcast = (\<lambda>nic p a. False),
               WritePacket = (\<lambda>r params pkt. None),
               WriteHeaderIncludedPacket = (\<lambda>r pkt. None)\<rparr>,
      ops = \<lparr>GetBindToDevice = 0, GetBroadcast = False, GetHeaderIncluded = False,
             GetMulticastLoop = True, GetV6Only = False\<rparr>\<rparr>"

definition addrA :: Address where "addrA = [CHR 0x0A, CHR 0x00, CHR 0x00, CHR 0x02]"
definition addrB :: Address where "addrB = [CHR 0x0A, CHR 0x00, CHR 0x00, CHR 0x03]"
definition addrL :: Address where "addrL = [CHR 0x0A, CHR 0x00, CHR 0x00, CHR 0x01]"
definition addrM :: Address where "addrM = [CHR 0xE0, CHR 0x00, CHR 0x00, CHR 0x01]"

definition freshEndpoint :: Endpoint where
  "freshEndpoint =
     \<lparr>state = DatagramEndpointStateInitial,
      writeShutdown = False,
      info = \<lparr>NetProto = 0x0800, TransProto = 17, ID = zeroID, BindNICID = 0, BindAddr = '''',
              RegisterNICID = 0\<rparr>,
      effectiveNetProto = 0x0800,
      route = None,
      ttl = 0,
      multicastTTL = 1,
      multicastAddr = '''',
      multicastNICID = 0,
      multicastMemberships = Some [],
      sendTOS = 0,
      owner = None\<rparr>"

text \<open>The fresh endpoint after Connect to \<open>addrA\<close> with no NIC given.\<close>

definition connectedEndpoint :: Endpoint where
  "connectedEndpoint =
     freshEndpoint\<lparr>route := Some (testRoute 0 '''' addrA 0x0800),
                   info := (info freshEndpoint)\<lparr>ID := zeroID\<lparr>LocalAddress := addrL,
                                                            RemoteAddress := addrA\<rparr>,
                                                 RegisterNICID := 0\<rparr>,
                   effectiveNetProto := 0x0800,
                   state := DatagramEndpointStateConnected\<rparr>"

text \<open>The four options of SetSockOptInt that store their value in a uint8 field.\<close>

definition truncOption :: "SockOptInt \<Rightarrow> bool" where
  "truncOption opt =
     (opt = TTLOption \<or> opt = MulticastTTLOption \<or> opt = IPv4TOSOption
      \<or> opt = IPv6TrafficClassOption)"

section \<open>The stated rules that the code is compared with\<close>

text \<open>
  The TTL rule in the words of the specification: the multicast TTL if the remote
  address of the route is an IPv4 or IPv6 multicast address, otherwise the configured
  TTL when it is not zero, otherwise the default TTL of the route.
\<close>

definition selectTTL :: "Env \<Rightarrow> Endpoint \<Rightarrow> Route \<Rightarrow> 8 word" where
  "selectTTL env e r =
     (if IsV4MulticastAddress (decls env) (RouteRemoteAddress r)
         \<or> IsV6MulticastAddress (decls env) (RouteRemoteAddress r)
      then multicastTTL e
      else if ttl e \<noteq> 0 then ttl e
      else RouteDefaultTTL r)"

fun isJoinGroupCall :: "Event \<Rightarrow> bool" where
  "isJoinGroupCall (JoinGroupCall p n a) = True"
| "isJoinGroupCall ev = False"

fun isLeaveGroupCall :: "Event \<Rightarrow> bool" where
  "isLeaveGroupCall (LeaveGroupCall p n a) = True"
| "isLeaveGroupCall ev = False"

fun isInit :: "Op \<Rightarrow> bool" where
  "isInit (OpInit netProto transProto) = True"
| "isInit op = False"

text \<open>The NICs that the calls of FindRoute in a list of events were made with.\<close>

fun findRouteNICs :: "Event list \<Rightarrow> NICID list" where
  "findRouteNICs [] = []"
| "findRouteNICs (FindRouteCall n l a p loop # evs) = n # findRouteNICs evs"
| "findRouteNICs (ev # evs) = findRouteNICs evs"

definition testBuilder :: PacketBuilder where
  "testBuilder = (\<lambda>netProto src dst maxHeaderLength requiresTXChecksum.
                    Inr \<lparr>PacketID = 7, Owner = None\<rparr>)"

text \<open>The fresh endpoint after Bind to \<open>addrL\<close>, which the test stack owns on NIC 1.\<close>

definition boundEndpoint :: Endpoint where
  "boundEndpoint =
     freshEndpoint\<lparr>info := (info freshEndpoint)\<lparr>ID := zeroID\<lparr>LocalAddress := addrL\<rparr>,
                                                 BindNICID := 1,
                                                 RegisterNICID := 1,
                                                 BindAddr := addrL\<rparr>,
                   state := DatagramEndpointStateBound\<rparr>"

text \<open>The fresh endpoint after Connect to \<open>addrA\<close> with NIC 5.\<close>

definition connectedNIC5 :: Endpoint where
  "connectedNIC5 =
     freshEndpoint\<lparr>route := Some (testRoute 5 '''' addrA 0x0800),
                   info := (info freshEndpoint)\<lparr>ID := zeroID\<lparr>LocalAddress := addrL,
                                                            RemoteAddress := addrA\<rparr>,
                                                 RegisterNICID := 5\<rparr>,
                   effectiveNetProto := 0x0800,
                   state := DatagramEndpointStateConnected\<rparr>"

text \<open>
  The test stack with one change: its NIC 6 does not own the address \<open>addrL\<close>, so it
  finds no route that leaves NIC 6 from \<open>addrL\<close>.
\<close>

definition strictEnv :: Env where
  "strictEnv =
     testEnv\<lparr>stack := (stack testEnv)
                \<lparr>FindRoute := (\<lambda>nic l r p loop.
                                 if r = '''' \<or> (nic = 6 \<and> l = addrL) then Inl ErrNoRoute
                                 else Inr (testRoute nic l r p))\<rparr>\<rparr>"

section \<open>Every public operation keeps the invariant\<close>

lemma Init_shape:
  "Init env netProto transProto e = Done e' \<Longrightarrow>
     state e' = DatagramEndpointStateInitial \<and> route e' = None
     \<and> multicastMemberships e' = Some [] \<and> BindNICID (info e') = 0"
  by (auto simp: Init_def split: if_splits)

lemma Init_invariant: "Init env netProto transProto e = Done e' \<Longrightarrow> endpointInvariant e'"
  by (drule Init_shape) (simp add: endpointInvariant_def)

lemma ConnectAndThen_shape:
  "ConnectAndThen env addr f e = (err, e', evs) \<Longrightarrow>
     (err \<noteq> None \<and> e' = e)
     \<or> (err = None
        \<and> (\<exists>r nextID n p. e' = e\<lparr>route := Some r,
                                   info := (info e)\<lparr>ID := nextID, RegisterNICID := n\<rparr>,
                                   effectiveNetProto := p,
                                   state := DatagramEndpointStateConnected\<rparr>)
        \<and> (case state e of DatagramEndpointStateInitial \<Rightarrow> True
            | DatagramEndpointStateBound \<Rightarrow> True
            | DatagramEndpointStateConnected \<Rightarrow> True
            | _ \<Rightarrow> False))"
  unfolding ConnectAndThen_def Let_def
  by (auto split: DatagramEndpointState.splits if_splits sum.splits prod.splits option.splits)

lemma ConnectAndThen_invariant:
  "ConnectAndThen env addr f e = (err, e', evs) \<Longrightarrow> endpointInvariant e \<Longrightarrow> endpointInvariant e'"
  by (drule ConnectAndThen_shape) (auto simp: endpointInvariant_def)

lemma BindAndThen_shape:
  "BindAndThen env addr f e = (err, e') \<Longrightarrow>
     (err \<noteq> None \<and> e' = e)
     \<or> (err = None \<and> state e = DatagramEndpointStateInitial
        \<and> (\<exists>i p. e' = e\<lparr>info := i, effectiveNetProto := p,
                          state := DatagramEndpointStateBound\<rparr>))"
  unfolding BindAndThen_def Let_def
  by (auto split: if_splits sum.splits prod.splits option.splits)

lemma BindAndThen_invariant:
  "BindAndThen env addr f e = (err, e') \<Longrightarrow> endpointInvariant e \<Longrightarrow> endpointInvariant e'"
  by (drule BindAndThen_shape) (auto simp: endpointInvariant_def)

lemma Disconnect_invariant:
  "Disconnect e = Done (e', evs) \<Longrightarrow> endpointInvariant e \<Longrightarrow> endpointInvariant e'"
  unfolding Disconnect_def Let_def
  by (auto simp: endpointInvariant_def split: if_splits option.splits)

lemma Disconnect_no_panic: "endpointInvariant e \<Longrightarrow> Disconnect e \<noteq> Panic"
  unfolding Disconnect_def Let_def
  by (auto simp: endpointInvariant_def split: if_splits option.splits)

lemma Shutdown_shape:
  "Shutdown e = Done (err, e') \<Longrightarrow> e' = e \<or> e' = e\<lparr>writeShutdown := True\<rparr>"
  unfolding Shutdown_def by (auto split: DatagramEndpointState.splits)

lemma Shutdown_invariant:
  "Shutdown e = Done (err, e') \<Longrightarrow> endpointInvariant e \<Longrightarrow> endpointInvariant e'"
  by (drule Shutdown_shape) (auto simp: endpointInvariant_def)

lemma Shutdown_no_panic: "endpointInvariant e \<Longrightarrow> Shutdown e \<noteq> Panic"
  unfolding Shutdown_def
  by (auto simp: endpointInvariant_def split: DatagramEndpointState.splits)

lemma Close_shape:
  "Close e = (e', evs) \<Longrightarrow>
     (state e = DatagramEndpointStateClosed \<and> e' = e \<and> evs = [])
     \<or> (state e \<noteq> DatagramEndpointStateClosed
        \<and> e' = e\<lparr>multicastMemberships := Some [], route := None,
                  state := DatagramEndpointStateClosed\<rparr>)"
  unfolding Close_def Let_def
  by (auto split: if_splits option.splits)

lemma Close_invariant: "Close e = (e', evs) \<Longrightarrow> endpointInvariant e \<Longrightarrow> endpointInvariant e'"
  by (drule Close_shape) (auto simp: endpointInvariant_def)

lemma SetSockOptInt_shape:
  "SetSockOptInt env opt v e = (err, e') \<Longrightarrow>
     e' = e \<or> (\<exists>w. e' = e\<lparr>multicastTTL := w\<rparr>) \<or> (\<exists>w. e' = e\<lparr>ttl := w\<rparr>)
     \<or> (\<exists>w. e' = e\<lparr>sendTOS := w\<rparr>)"
  unfolding SetSockOptInt_def by (auto split: SockOptInt.splits if_splits)

lemma SetSockOptInt_invariant:
  "SetSockOptInt env opt v e = (err, e') \<Longrightarrow> endpointInvariant e \<Longrightarrow> endpointInvariant e'"
  by (drule SetSockOptInt_shape) (auto simp: endpointInvariant_def)

lemma SetSockOpt_shape:
  "SetSockOpt env opt e = Done (err, e', evs) \<Longrightarrow>
     e' = e
     \<or> (\<exists>n a. e' = e\<lparr>multicastNICID := n, multicastAddr := a\<rparr>)
     \<or> (\<exists>n a. e' = e\<lparr>multicastAddr := a, multicastNICID := n\<rparr>)
     \<or> (\<exists>k ks. multicastMemberships e = Some ks \<and> k \<notin> set ks
           \<and> e' = e\<lparr>multicastMemberships := Some (ks @ [k])\<rparr>)
     \<or> (\<exists>k ks. multicastMemberships e = Some ks
           \<and> e' = e\<lparr>multicastMemberships := Some (removeAll k ks)\<rparr>)"
  unfolding SetSockOpt_def Let_def map_has_def map_store_def map_delete_def
  by (auto split: SettableSocketOption.splits if_splits sum.splits prod.splits option.splits
                  Outcome.splits)

lemma SetSockOpt_invariant:
  "SetSockOpt env opt e = Done (err, e', evs) \<Longrightarrow> endpointInvariant e \<Longrightarrow> endpointInvariant e'"
  by (drule SetSockOpt_shape) (auto simp: endpointInvariant_def distinct_removeAll)

lemma SetSockOpt_no_panic: "endpointInvariant e \<Longrightarrow> SetSockOpt env opt e \<noteq> Panic"
  unfolding SetSockOpt_def Let_def map_has_def map_store_def map_delete_def
  by (auto simp: endpointInvariant_def
           split: SettableSocketOption.splits if_splits sum.splits prod.splits option.splits
                  Outcome.splits)

lemma Write_locked_no_panic: "endpointInvariant e \<Longrightarrow> Write_locked env opts e \<noteq> Panic"
  unfolding Write_locked_def Let_def
  by (auto simp: endpointInvariant_def split: if_splits sum.splits prod.splits option.splits)

lemma Write_no_panic: "endpointInvariant e \<Longrightarrow> Write env pktf opts e \<noteq> Panic"
  using Write_locked_no_panic [of e env opts]
  unfolding Write_def Let_def
  by (auto split: if_splits sum.splits prod.splits option.splits Outcome.splits)

lemma step_invariant:
  "step env op e = Done (e', evs) \<Longrightarrow> endpointInvariant e \<Longrightarrow> endpointInvariant e'"
proof (cases op)
  case (OpInit np tp)
  assume "step env op e = Done (e', evs)"
  with OpInit show ?thesis
    by (auto simp: step_def dest: Init_invariant split: Outcome.splits)
next
  case (OpBind a)
  assume "step env op e = Done (e', evs)" "endpointInvariant e"
  with OpBind show ?thesis
    by (auto simp: step_def Bind_def intro: BindAndThen_invariant [OF surjective_pairing])
next
  case (OpBindAndThen a f)
  assume "step env op e = Done (e', evs)" "endpointInvariant e"
  with OpBindAndThen show ?thesis
    by (auto simp: step_def intro: BindAndThen_invariant [OF surjective_pairing])
next
  case (OpConnect a)
  assume "step env op e = Done (e', evs)" "endpointInvariant e"
  with OpConnect show ?thesis
    by (cases "ConnectAndThen env a (\<lambda>_ _ _. None) e")
       (auto simp: step_def Connect_def dest: ConnectAndThen_invariant)
next
  case (OpConnectAndThen a f)
  assume "step env op e = Done (e', evs)" "endpointInvariant e"
  with OpConnectAndThen show ?thesis
    by (cases "ConnectAndThen env a f e")
       (auto simp: step_def dest: ConnectAndThen_invariant)
next
  case OpDisconnect
  assume "step env op e = Done (e', evs)" "endpointInvariant e"
  with OpDisconnect show ?thesis
    by (auto simp: step_def dest: Disconnect_invariant)
next
  case OpShutdown
  assume "step env op e = Done (e', evs)" "endpointInvariant e"
  with OpShutdown show ?thesis
    by (auto simp: step_def dest: Shutdown_invariant split: Outcome.splits)
next
  case (OpWrite pktf opts)
  assume "step env op e = Done (e', evs)" "endpointInvariant e"
  with OpWrite show ?thesis
    by (auto simp: step_def split: Outcome.splits)
next
  case OpClose
  assume "step env op e = Done (e', evs)" "endpointInvariant e"
  with OpClose show ?thesis
    by (auto simp: step_def dest: Close_invariant)
next
  case (OpSetOwner w)
  assume "step env op e = Done (e', evs)" "endpointInvariant e"
  with OpSetOwner show ?thesis
    by (auto simp: step_def SetOwner_def endpointInvariant_def)
next
  case (OpSetSockOptInt opt v)
  assume "step env op e = Done (e', evs)" "endpointInvariant e"
  with OpSetSockOptInt show ?thesis
    by (auto simp: step_def intro: SetSockOptInt_invariant [OF surjective_pairing])
next
  case (OpGetSockOptInt opt)
  assume "step env op e = Done (e', evs)" "endpointInvariant e"
  with OpGetSockOptInt show ?thesis by (auto simp: step_def)
next
  case (OpSetSockOpt opt)
  assume "step env op e = Done (e', evs)" "endpointInvariant e"
  with OpSetSockOpt show ?thesis
    by (auto simp: step_def dest: SetSockOpt_invariant split: Outcome.splits)
next
  case (OpGetSockOpt opt)
  assume "step env op e = Done (e', evs)" "endpointInvariant e"
  with OpGetSockOpt show ?thesis by (auto simp: step_def)
qed

lemma run_invariant:
  "run calls e = Done (e', evs) \<Longrightarrow> endpointInvariant e \<Longrightarrow> endpointInvariant e'"
proof (induction calls arbitrary: e evs)
  case Nil
  then show ?case by simp
next
  case (Cons x rest)
  obtain env op where x: "x = (env, op)" by (cases x)
  from Cons.prems(1) x obtain e1 evs1 evs2 where
    s: "step env op e = Done (e1, evs1)" and r: "run rest e1 = Done (e', evs2)"
    by (auto split: Outcome.splits)
  from step_invariant [OF s Cons.prems(2)] have "endpointInvariant e1" .
  with Cons.IH [OF r] show ?case .
qed

lemmas fixture_defs =
  testEnv_def testRoute_def addrA_def addrB_def addrL_def addrM_def freshEndpoint_def zeroID_def
  zeroEndpoint_def connectedEndpoint_def

lemmas op_defs =
  Init_def Close_def Disconnect_def Shutdown_def checkV4MappedLocked_def
  isBroadcastOrMulticast_def connectRoute_def ConnectAndThen_def Connect_def BindAndThen_def
  Bind_def SetOwner_def Write_locked_def Write_def SetSockOptInt_def GetSockOptInt_def
  membershipNIC_def SetSockOpt_def GetSockOpt_def step_def map_has_def map_range_def
  map_store_def map_delete_def Let_def

section \<open>Socket options that hold one byte\<close>

lemma trunc8: "sint (ucast (ucast (v :: 64 word) :: 8 word) :: 64 word) = sint v mod 2 ^ 8"
proof -
  have "sint (ucast (ucast v :: 8 word) :: 64 word) = uint (ucast v :: 8 word)"
  proof -
    have "uint (ucast v :: 8 word) < 2 ^ 63"
      using uint_bounded [of "ucast v :: 8 word"] by simp
    then have "take_bit 63 (uint (ucast v :: 8 word)) = uint (ucast v :: 8 word)"
      by (simp add: take_bit_int_eq_self)
    then show ?thesis
      by (simp add: signed_ucast_eq signed_take_bit_eq_if_positive bit_simps)
  qed
  also have "\<dots> = take_bit 8 (uint v)"
    by (simp add: unsigned_ucast_eq)
  also have "\<dots> = take_bit 8 (take_bit 64 (sint v))"
    by (simp add: uint_sint)
  also have "\<dots> = take_bit 8 (sint v)"
    by simp
  also have "\<dots> = sint v mod 2 ^ 8"
    by (simp add: take_bit_eq_mod)
  finally show ?thesis .
qed

text \<open>
  C10. For every int \<open>v\<close>, SetSockOptInt with TTLOption, MulticastTTLOption, IPv4TOSOption
  or IPv6TrafficClassOption succeeds and stores \<open>v\<close> truncated to 8 bits: the
  GetSockOptInt of the same option that follows answers \<open>v mod 2^8\<close>, which is \<open>v\<close>
  exactly when \<open>0 \<le> v \<le> 255\<close>; and the two TOS options read and write one field.
\<close>

theorem SetSockOptInt_truncates_to_8_bits:
  assumes "truncOption opt"
  shows "fst (SetSockOptInt env opt v e) = None
         \<and> snd (GetSockOptInt env opt (snd (SetSockOptInt env opt v e))) = None
         \<and> sint (fst (GetSockOptInt env opt (snd (SetSockOptInt env opt v e)))) = sint v mod 2 ^ 8
         \<and> ((fst (GetSockOptInt env opt (snd (SetSockOptInt env opt v e))) = v)
            = (0 \<le> sint v \<and> sint v \<le> 255))
         \<and> GetSockOptInt env IPv6TrafficClassOption (snd (SetSockOptInt env IPv4TOSOption v e))
           = GetSockOptInt env IPv4TOSOption (snd (SetSockOptInt env IPv4TOSOption v e))
         \<and> GetSockOptInt env IPv4TOSOption (snd (SetSockOptInt env IPv6TrafficClassOption v e))
           = GetSockOptInt env IPv6TrafficClassOption
               (snd (SetSockOptInt env IPv6TrafficClassOption v e))
         \<and> sendTOS (snd (SetSockOptInt env IPv4TOSOption v e))
           = sendTOS (snd (SetSockOptInt env IPv6TrafficClassOption v e))"
proof -
  let ?g = "fst (GetSockOptInt env opt (snd (SetSockOptInt env opt v e)))"
  have g: "?g = ucast (ucast v :: 8 word)"
    using assms by (auto simp: truncOption_def SetSockOptInt_def GetSockOptInt_def)
  have s: "sint ?g = sint v mod 2 ^ 8"
    unfolding g by (rule trunc8)
  have "(?g = v) = (sint ?g = sint v)"
    by (rule word_eq_iff_signed [where ?'a = int])
  also have "\<dots> = (0 \<le> sint v \<and> sint v \<le> 255)"
    unfolding s by auto
  finally have i: "(?g = v) = (0 \<le> sint v \<and> sint v \<le> 255)" .
  have rest: "fst (SetSockOptInt env opt v e) = None
         \<and> snd (GetSockOptInt env opt (snd (SetSockOptInt env opt v e))) = None"
    using assms by (auto simp: truncOption_def SetSockOptInt_def GetSockOptInt_def)
  show ?thesis
    using s i rest by (simp add: SetSockOptInt_def GetSockOptInt_def)
qed

theorem SetSockOptInt_truncates_to_8_bits_witness:
  "truncOption TTLOption
   \<and> fst (SetSockOptInt testEnv TTLOption 42 freshEndpoint) = None
   \<and> GetSockOptInt testEnv TTLOption (snd (SetSockOptInt testEnv TTLOption 42 freshEndpoint))
     = (42, None)
   \<and> truncOption IPv4TOSOption
   \<and> GetSockOptInt testEnv IPv4TOSOption (snd (SetSockOptInt testEnv IPv4TOSOption 300 freshEndpoint))
     = (44, None)
   \<and> sint (fst (GetSockOptInt testEnv IPv4TOSOption
                 (snd (SetSockOptInt testEnv IPv4TOSOption 300 freshEndpoint))))
     = sint (300 :: 64 word) mod 2 ^ 8"
  using SetSockOptInt_truncates_to_8_bits [of TTLOption testEnv 42 freshEndpoint]
        SetSockOptInt_truncates_to_8_bits [of IPv4TOSOption testEnv 300 freshEndpoint]
  by (simp add: truncOption_def SetSockOptInt_def GetSockOptInt_def)


section \<open>Options that the endpoint does not recognise\<close>

text \<open>
  C6, as the code has it. The two getters answer unknown-protocol-option for an option
  they do not recognise (GetSockOptInt together with the value -1); the two setters have
  no default branch: for an option they do not recognise they answer nil and leave the
  endpoint as it is.
\<close>

theorem unrecognised_option_getters_fail_setters_succeed:
  "GetSockOptInt env (OtherSockOptInt w) e = (- 1, Some ErrUnknownProtocolOption)
   \<and> GetSockOpt (OtherGettableSocketOption n) e = (Some ErrUnknownProtocolOption, None)
   \<and> SetSockOptInt env (OtherSockOptInt w) v e = (None, e)
   \<and> SetSockOpt env (OtherSettableSocketOption n) e = Done (None, e, [])"
  by (simp add: GetSockOptInt_def GetSockOpt_def SetSockOptInt_def SetSockOpt_def)

text \<open>
  C6 as stated fails: SetSockOptInt and SetSockOpt do not answer
  unknown-protocol-option for an option they do not recognise.
\<close>

theorem unrecognised_option_setters_counterexample:
  "fst (SetSockOptInt testEnv (OtherSockOptInt 99) 0 freshEndpoint) \<noteq> Some ErrUnknownProtocolOption
   \<and> SetSockOpt testEnv (OtherSettableSocketOption 0) freshEndpoint
     \<noteq> Done (Some ErrUnknownProtocolOption, freshEndpoint, [])"
  by (simp add: SetSockOptInt_def SetSockOpt_def)

section \<open>Shutdown\<close>

text \<open>
  C9. Shutdown from Initial or Closed answers not-connected and changes nothing; from
  Bound or Connected it sets the write-shutdown flag and answers nil; any other value of
  the state panics. An endpoint that was initialised and then went through any sequence
  of public calls holds one of the four named states, so its Shutdown does not panic.
\<close>

theorem Shutdown_by_state:
  "(state e = DatagramEndpointStateInitial \<or> state e = DatagramEndpointStateClosed
      \<longrightarrow> Shutdown e = Done (Some ErrNotConnected, e))
   \<and> (state e = DatagramEndpointStateBound \<or> state e = DatagramEndpointStateConnected
      \<longrightarrow> Shutdown e = Done (None, e\<lparr>writeShutdown := True\<rparr>))
   \<and> (state e = DatagramEndpointStateOther w \<longrightarrow> Shutdown e = Panic)
   \<and> (Init env netProto transProto zeroEndpoint = Done e0 \<and> run calls e0 = Done (e, evs)
      \<longrightarrow> Shutdown e \<noteq> Panic
          \<and> (state e = DatagramEndpointStateInitial \<or> state e = DatagramEndpointStateBound
             \<or> state e = DatagramEndpointStateConnected \<or> state e = DatagramEndpointStateClosed))"
proof -
  have a: "state e = DatagramEndpointStateInitial \<or> state e = DatagramEndpointStateClosed
      \<longrightarrow> Shutdown e = Done (Some ErrNotConnected, e)"
    by (auto simp: Shutdown_def)
  have b: "state e = DatagramEndpointStateBound \<or> state e = DatagramEndpointStateConnected
      \<longrightarrow> Shutdown e = Done (None, e\<lparr>writeShutdown := True\<rparr>)"
    by (auto simp: Shutdown_def)
  have c: "state e = DatagramEndpointStateOther w \<longrightarrow> Shutdown e = Panic"
    by (simp add: Shutdown_def)
  have d: "Shutdown e \<noteq> Panic
          \<and> (state e = DatagramEndpointStateInitial \<or> state e = DatagramEndpointStateBound
             \<or> state e = DatagramEndpointStateConnected \<or> state e = DatagramEndpointStateClosed)"
    if i: "Init env netProto transProto zeroEndpoint = Done e0" and r: "run calls e0 = Done (e, evs)"
  proof -
    have inv: "endpointInvariant e"
      using run_invariant [OF r Init_invariant [OF i]] .
    then have "Shutdown e \<noteq> Panic" by (rule Shutdown_no_panic)
    moreover from inv have "state e = DatagramEndpointStateInitial \<or> state e = DatagramEndpointStateBound
             \<or> state e = DatagramEndpointStateConnected \<or> state e = DatagramEndpointStateClosed"
      by (cases "state e") (simp_all add: endpointInvariant_def)
    ultimately show ?thesis by simp
  qed
  from a b c d show ?thesis by blast
qed

theorem Shutdown_by_state_witness:
  "Shutdown freshEndpoint = Done (Some ErrNotConnected, freshEndpoint)
   \<and> Shutdown (freshEndpoint\<lparr>state := DatagramEndpointStateBound\<rparr>)
     = Done (None, freshEndpoint\<lparr>state := DatagramEndpointStateBound, writeShutdown := True\<rparr>)
   \<and> Shutdown zeroEndpoint = Panic
   \<and> Init testEnv 0x0800 17 zeroEndpoint = Done freshEndpoint
   \<and> run [(testEnv, OpBind \<lparr>NIC = 0, Addr = addrL, Port = 0\<rparr>), (testEnv, OpShutdown)] freshEndpoint
     = Done (freshEndpoint\<lparr>info := (info freshEndpoint)\<lparr>ID := zeroID\<lparr>LocalAddress := addrL\<rparr>,
                                                      BindNICID := 1, RegisterNICID := 1,
                                                      BindAddr := addrL\<rparr>,
                          state := DatagramEndpointStateBound, writeShutdown := True\<rparr>, [])
   \<and> Shutdown (freshEndpoint\<lparr>info := (info freshEndpoint)\<lparr>ID := zeroID\<lparr>LocalAddress := addrL\<rparr>,
                                                      BindNICID := 1, RegisterNICID := 1,
                                                      BindAddr := addrL\<rparr>,
                          state := DatagramEndpointStateBound, writeShutdown := True\<rparr>) \<noteq> Panic"
proof -
  let ?calls = "[(testEnv, OpBind \<lparr>NIC = 0, Addr = addrL, Port = 0\<rparr>), (testEnv, OpShutdown)]"
  let ?e = "freshEndpoint\<lparr>info := (info freshEndpoint)\<lparr>ID := zeroID\<lparr>LocalAddress := addrL\<rparr>,
                                                      BindNICID := 1, RegisterNICID := 1,
                                                      BindAddr := addrL\<rparr>,
                          state := DatagramEndpointStateBound, writeShutdown := True\<rparr>"
  have i: "Init testEnv 0x0800 17 zeroEndpoint = Done freshEndpoint"
    by (simp add: fixture_defs op_defs)
  have r: "run ?calls freshEndpoint = Done (?e, [])"
    by (simp add: fixture_defs op_defs)
  have s1: "state freshEndpoint = DatagramEndpointStateInitial"
    by (simp add: freshEndpoint_def)
  have s2: "state (freshEndpoint\<lparr>state := DatagramEndpointStateBound\<rparr>) = DatagramEndpointStateBound"
    by simp
  have s3: "state zeroEndpoint = DatagramEndpointStateOther 0"
    by (simp add: zeroEndpoint_def)
  show ?thesis
    using Shutdown_by_state [of freshEndpoint 0 testEnv 0 0 zeroEndpoint "[]" "[]"] s1
          Shutdown_by_state [of "freshEndpoint\<lparr>state := DatagramEndpointStateBound\<rparr>" 0 testEnv 0 0
                                zeroEndpoint "[]" "[]"] s2
          Shutdown_by_state [of zeroEndpoint 0 testEnv 0 0 zeroEndpoint "[]" "[]"] s3
          Shutdown_by_state [of ?e 0 testEnv "0x0800" 17 freshEndpoint ?calls "[]"] i r
    by simp
qed

section \<open>Close\<close>

text \<open>
  C8. The first Close of an endpoint that is not Closed calls LeaveGroup once for every
  key of the membership map, empties the map, releases the held route (if there is one)
  once and sets the state to Closed; Close of a Closed endpoint changes nothing and has
  no effect on the stack or on a route. So a second Close, and any number of further
  ones, leave the state of the first and add no event.
\<close>

theorem Close_idempotent:
  "(state e \<noteq> DatagramEndpointStateClosed
      \<longrightarrow> Close e
          = (e\<lparr>multicastMemberships := Some [], route := None,
               state := DatagramEndpointStateClosed\<rparr>,
             map (\<lambda>mem. LeaveGroupCall (NetProto (info e)) (mem_nicID mem) (mem_multicastAddr mem))
                 (map_range (multicastMemberships e))
             @ (case route e of None \<Rightarrow> [] | Some r \<Rightarrow> [RouteRelease r])))
   \<and> (state e = DatagramEndpointStateClosed \<longrightarrow> Close e = (e, []))
   \<and> state (fst (Close e)) = DatagramEndpointStateClosed
   \<and> Close (fst (Close e)) = (fst (Close e), [])
   \<and> run (replicate (Suc n) (env, OpClose)) e = Done (Close e)"
proof -
  have a: "state e \<noteq> DatagramEndpointStateClosed
      \<longrightarrow> Close e
          = (e\<lparr>multicastMemberships := Some [], route := None,
               state := DatagramEndpointStateClosed\<rparr>,
             map (\<lambda>mem. LeaveGroupCall (NetProto (info e)) (mem_nicID mem) (mem_multicastAddr mem))
                 (map_range (multicastMemberships e))
             @ (case route e of None \<Rightarrow> [] | Some r \<Rightarrow> [RouteRelease r]))"
    by (auto simp: Close_def Let_def split: option.splits)
  have b: "state e = DatagramEndpointStateClosed \<longrightarrow> Close e = (e, [])"
    by (simp add: Close_def)
  have c: "state (fst (Close e)) = DatagramEndpointStateClosed"
    by (auto simp: Close_def Let_def split: option.splits)
  have d: "Close e' = (e', [])" if "state e' = DatagramEndpointStateClosed" for e'
    using that by (simp add: Close_def)
  have k: "run (replicate m (env, OpClose)) e' = Done (e', [])"
    if "state e' = DatagramEndpointStateClosed" for m e'
    using that by (induction m) (simp_all add: step_def d)
  have r: "run (replicate (Suc n) (env, OpClose)) e = Done (Close e)"
  proof (cases "Close e")
    case (Pair e1 evs1)
    with c have "state e1 = DatagramEndpointStateClosed" by simp
    from k [OF this, of n] Pair show ?thesis by (simp add: step_def)
  qed
  from a b c d [OF c] r show ?thesis by simp
qed

theorem Close_idempotent_witness:
  "state (connectedEndpoint\<lparr>multicastMemberships := Some [multicastMembership 1 addrM]\<rparr>)
     \<noteq> DatagramEndpointStateClosed
   \<and> Close (connectedEndpoint\<lparr>multicastMemberships := Some [multicastMembership 1 addrM]\<rparr>)
     = (connectedEndpoint\<lparr>multicastMemberships := Some [], route := None,
                           state := DatagramEndpointStateClosed\<rparr>,
        [LeaveGroupCall 0x0800 1 addrM, RouteRelease (testRoute 0 '''' addrA 0x0800)])
   \<and> state (connectedEndpoint\<lparr>multicastMemberships := Some [], route := None,
                               state := DatagramEndpointStateClosed\<rparr>)
     = DatagramEndpointStateClosed
   \<and> Close (connectedEndpoint\<lparr>multicastMemberships := Some [], route := None,
                               state := DatagramEndpointStateClosed\<rparr>)
     = (connectedEndpoint\<lparr>multicastMemberships := Some [], route := None,
                           state := DatagramEndpointStateClosed\<rparr>, [])"
  using Close_idempotent [of "connectedEndpoint\<lparr>multicastMemberships := Some [multicastMembership 1 addrM]\<rparr>"
                             0 testEnv]
        Close_idempotent [of "connectedEndpoint\<lparr>multicastMemberships := Some [], route := None,
                               state := DatagramEndpointStateClosed\<rparr>" 0 testEnv]
  by (simp add: connectedEndpoint_def freshEndpoint_def map_range_def)

section \<open>Disconnect\<close>

text \<open>
  C3, as the code has it. Disconnect is a no-op unless the state is Connected. From
  Connected: if the endpoint has a NIC pinning (BindNICID is not 0) or its local address
  is empty, the identity is reduced to the local address and the state becomes Bound;
  otherwise (no pinning and a local address that is not empty) the identity is cleared
  and the state becomes Initial; in both cases the held route is released and set to
  nil. An initialised endpoint in state Connected holds a route, so its Disconnect
  returns.
\<close>

theorem Disconnect_by_pinning_or_empty_local_address:
  "(state e \<noteq> DatagramEndpointStateConnected \<longrightarrow> Disconnect e = Done (e, []))
   \<and> (state e = DatagramEndpointStateConnected \<and> route e = Some r
       \<and> (BindNICID (info e) \<noteq> 0 \<or> LocalAddress (ID (info e)) = '''')
      \<longrightarrow> Disconnect e
          = Done (e\<lparr>info := (info e)\<lparr>ID := zeroID\<lparr>LocalAddress := LocalAddress (ID (info e))\<rparr>\<rparr>,
                    state := DatagramEndpointStateBound, route := None\<rparr>,
                  [RouteRelease r]))
   \<and> (state e = DatagramEndpointStateConnected \<and> route e = Some r
       \<and> BindNICID (info e) = 0 \<and> LocalAddress (ID (info e)) \<noteq> ''''
      \<longrightarrow> Disconnect e
          = Done (e\<lparr>info := (info e)\<lparr>ID := zeroID\<rparr>,
                    state := DatagramEndpointStateInitial, route := None\<rparr>,
                  [RouteRelease r]))
   \<and> (Init env netProto transProto zeroEndpoint = Done e0 \<and> run calls e0 = Done (e, evs)
      \<longrightarrow> Disconnect e \<noteq> Panic)"
proof -
  have "Disconnect e \<noteq> Panic"
    if i: "Init env netProto transProto zeroEndpoint = Done e0" and r: "run calls e0 = Done (e, evs)"
    using Disconnect_no_panic [OF run_invariant [OF r Init_invariant [OF i]]] .
  then show ?thesis
    by (auto simp: Disconnect_def Let_def)
qed

theorem Disconnect_by_pinning_or_empty_local_address_witness:
  "Disconnect freshEndpoint = Done (freshEndpoint, [])
   \<and> Disconnect (connectedEndpoint\<lparr>info := (info connectedEndpoint)\<lparr>BindNICID := 1\<rparr>\<rparr>)
     = Done (connectedEndpoint\<lparr>info := (info connectedEndpoint)\<lparr>ID := zeroID\<lparr>LocalAddress := addrL\<rparr>,
                                                                  BindNICID := 1\<rparr>,
                               state := DatagramEndpointStateBound, route := None\<rparr>,
             [RouteRelease (testRoute 0 '''' addrA 0x0800)])
   \<and> Disconnect connectedEndpoint
     = Done (connectedEndpoint\<lparr>info := (info connectedEndpoint)\<lparr>ID := zeroID\<rparr>,
                               state := DatagramEndpointStateInitial, route := None\<rparr>,
             [RouteRelease (testRoute 0 '''' addrA 0x0800)])
   \<and> Disconnect (connectedEndpoint\<lparr>info := (info connectedEndpoint)
                                              \<lparr>ID := zeroID\<lparr>RemoteAddress := addrA\<rparr>\<rparr>\<rparr>)
     = Done (connectedEndpoint\<lparr>info := (info connectedEndpoint)\<lparr>ID := zeroID\<rparr>,
                               state := DatagramEndpointStateBound, route := None\<rparr>,
             [RouteRelease (testRoute 0 '''' addrA 0x0800)])
   \<and> Init testEnv 0x0800 17 zeroEndpoint = Done freshEndpoint
   \<and> run [(testEnv, OpConnect \<lparr>NIC = 0, Addr = addrA, Port = 0\<rparr>)] freshEndpoint
     = Done (connectedEndpoint, [FindRouteCall 0 '''' addrA 0x0800 True])
   \<and> Disconnect connectedEndpoint \<noteq> Panic"
proof -
  let ?calls = "[(testEnv, OpConnect \<lparr>NIC = 0, Addr = addrA, Port = 0\<rparr>)]"
  let ?r = "testRoute 0 '''' addrA 0x0800"
  have i: "Init testEnv 0x0800 17 zeroEndpoint = Done freshEndpoint"
    by (simp add: fixture_defs op_defs)
  have r: "run ?calls freshEndpoint = Done (connectedEndpoint, [FindRouteCall 0 '''' addrA 0x0800 True])"
    by (simp add: fixture_defs op_defs)
  show ?thesis
    using Disconnect_by_pinning_or_empty_local_address
            [of freshEndpoint ?r testEnv 0 0 zeroEndpoint "[]" "[]"]
          Disconnect_by_pinning_or_empty_local_address
            [of "connectedEndpoint\<lparr>info := (info connectedEndpoint)\<lparr>BindNICID := 1\<rparr>\<rparr>" ?r
                testEnv 0 0 zeroEndpoint "[]" "[]"]
          Disconnect_by_pinning_or_empty_local_address
            [of "connectedEndpoint\<lparr>info := (info connectedEndpoint)
                                            \<lparr>ID := zeroID\<lparr>RemoteAddress := addrA\<rparr>\<rparr>\<rparr>" ?r
                testEnv 0 0 zeroEndpoint "[]" "[]"]
          Disconnect_by_pinning_or_empty_local_address
            [of connectedEndpoint ?r testEnv "0x0800" 17 freshEndpoint ?calls
                "[FindRouteCall 0 '''' addrA 0x0800 True]"]
          i r
    by (simp add: connectedEndpoint_def freshEndpoint_def addrL_def zeroID_def)
qed

text \<open>
  C3 as stated fails: an endpoint that went from Initial to Connected has no NIC pinning
  and a local address that is not empty (the one of the route); its Disconnect leaves
  the state Initial and the identity empty, not the state Bound with that local address.
\<close>

theorem Disconnect_nonempty_local_address_counterexample:
  "Connect testEnv \<lparr>NIC = 0, Addr = addrA, Port = 0\<rparr> freshEndpoint
     = (None, connectedEndpoint, [FindRouteCall 0 '''' addrA 0x0800 True])
   \<and> state connectedEndpoint = DatagramEndpointStateConnected
   \<and> BindNICID (info connectedEndpoint) = 0
   \<and> LocalAddress (ID (info connectedEndpoint)) = addrL
   \<and> addrL \<noteq> ''''
   \<and> Disconnect connectedEndpoint
     = Done (connectedEndpoint\<lparr>info := (info connectedEndpoint)\<lparr>ID := zeroID\<rparr>,
                               state := DatagramEndpointStateInitial, route := None\<rparr>,
             [RouteRelease (testRoute 0 '''' addrA 0x0800)])
   \<and> state (connectedEndpoint\<lparr>info := (info connectedEndpoint)\<lparr>ID := zeroID\<rparr>,
                               state := DatagramEndpointStateInitial, route := None\<rparr>)
     \<noteq> DatagramEndpointStateBound"
  by (simp add: fixture_defs op_defs)

section \<open>A hook of ConnectAndThen that fails\<close>

text \<open>
  C2 at a concrete input. The fresh endpoint calls ConnectAndThen for \<open>addrA\<close> with a hook
  that answers an error. FindRoute succeeds and hands out a route; the call answers the
  error of the hook and the endpoint is unchanged, but the only event of the call is the
  FindRoute: the route is not released.
\<close>

theorem ConnectAndThen_failed_hook_does_not_release_route:
  "FindRoute (stack testEnv) 0 '''' addrA 0x0800 True = Inr (testRoute 0 '''' addrA 0x0800)
   \<and> ConnectAndThen testEnv \<lparr>NIC = 0, Addr = addrA, Port = 0\<rparr> (\<lambda>_ _ _. Some (ErrExternal 1))
        freshEndpoint
     = (Some (ErrExternal 1), freshEndpoint, [FindRouteCall 0 '''' addrA 0x0800 True])
   \<and> RouteRelease (testRoute 0 '''' addrA 0x0800)
     \<notin> set (snd (snd (ConnectAndThen testEnv \<lparr>NIC = 0, Addr = addrA, Port = 0\<rparr>
                          (\<lambda>_ _ _. Some (ErrExternal 1)) freshEndpoint)))"
  by (simp add: fixture_defs op_defs)

section \<open>No public operation other than Init panics on an initialised endpoint\<close>

lemma step_no_panic:
  "endpointInvariant e \<Longrightarrow> \<not> isInit op \<Longrightarrow> step env op e \<noteq> Panic"
  using Disconnect_no_panic [of e] Shutdown_no_panic [of e] Write_no_panic [of e]
        SetSockOpt_no_panic [of e]
  by (cases op) (auto simp: step_def split: Outcome.splits)

lemma run_no_panic:
  "endpointInvariant e \<Longrightarrow> list_all (\<lambda>c. \<not> isInit (snd c)) calls \<Longrightarrow> run calls e \<noteq> Panic"
proof (induction calls arbitrary: e)
  case Nil
  then show ?case by simp
next
  case (Cons x rest)
  obtain env op where x: "x = (env, op)" by (cases x)
  from Cons.prems x have ni: "\<not> isInit op" and rest: "list_all (\<lambda>c. \<not> isInit (snd c)) rest"
    by simp_all
  from step_no_panic [OF Cons.prems(1) ni] obtain e1 evs1 where
    s: "step env op e = Done (e1, evs1)"
    by (cases "step env op e") auto
  from step_invariant [OF s Cons.prems(1)] have "endpointInvariant e1" .
  from Cons.IH [OF this rest] have "run rest e1 \<noteq> Panic" .
  with s x show ?case by (auto split: Outcome.splits)
qed

section \<open>The invariant of the route\<close>

text \<open>
  C1. An endpoint comes out of Init on the zero value of the struct. After any sequence
  of public calls on it (each call in the environment of its moment), the route field is
  not nil if and only if the state is Connected; a sequence is any list of calls, so this
  holds after each call of a longer sequence. The only call that panics on such an
  endpoint is a second Init.
\<close>

theorem route_nonnil_iff_Connected:
  assumes "Init env netProto transProto zeroEndpoint = Done e0"
  shows "(run calls e0 = Done (e, evs)
            \<longrightarrow> (route e \<noteq> None) = (state e = DatagramEndpointStateConnected))
         \<and> (list_all (\<lambda>c. \<not> isInit (snd c)) calls \<longrightarrow> run calls e0 \<noteq> Panic)"
proof -
  have inv0: "endpointInvariant e0"
    using Init_invariant [OF assms] .
  have "(route e \<noteq> None) = (state e = DatagramEndpointStateConnected)"
    if r: "run calls e0 = Done (e, evs)"
    using run_invariant [OF r inv0] by (simp add: endpointInvariant_def)
  moreover have "run calls e0 \<noteq> Panic" if "list_all (\<lambda>c. \<not> isInit (snd c)) calls"
    using run_no_panic [OF inv0 that] .
  ultimately show ?thesis by blast
qed

theorem route_nonnil_iff_Connected_witness:
  "Init testEnv 0x0800 17 zeroEndpoint = Done freshEndpoint
   \<and> run [(testEnv, OpConnect \<lparr>NIC = 0, Addr = addrA, Port = 0\<rparr>)] freshEndpoint
     = Done (connectedEndpoint, [FindRouteCall 0 '''' addrA 0x0800 True])
   \<and> (route connectedEndpoint \<noteq> None)
   \<and> state connectedEndpoint = DatagramEndpointStateConnected
   \<and> run [(testEnv, OpConnect \<lparr>NIC = 0, Addr = addrA, Port = 0\<rparr>), (testEnv, OpDisconnect),
          (testEnv, OpClose)] freshEndpoint
     = Done (freshEndpoint\<lparr>state := DatagramEndpointStateClosed\<rparr>,
             [FindRouteCall 0 '''' addrA 0x0800 True, RouteRelease (testRoute 0 '''' addrA 0x0800)])
   \<and> route (freshEndpoint\<lparr>state := DatagramEndpointStateClosed\<rparr>) = None
   \<and> state (freshEndpoint\<lparr>state := DatagramEndpointStateClosed\<rparr>) \<noteq> DatagramEndpointStateConnected"
proof -
  let ?c1 = "[(testEnv, OpConnect \<lparr>NIC = 0, Addr = addrA, Port = 0\<rparr>)]"
  let ?c2 = "[(testEnv, OpConnect \<lparr>NIC = 0, Addr = addrA, Port = 0\<rparr>), (testEnv, OpDisconnect),
              (testEnv, OpClose)]"
  have i: "Init testEnv 0x0800 17 zeroEndpoint = Done freshEndpoint"
    by (simp add: fixture_defs op_defs)
  have r1: "run ?c1 freshEndpoint = Done (connectedEndpoint, [FindRouteCall 0 '''' addrA 0x0800 True])"
    by (simp add: fixture_defs op_defs)
  have r2: "run ?c2 freshEndpoint
     = Done (freshEndpoint\<lparr>state := DatagramEndpointStateClosed\<rparr>,
             [FindRouteCall 0 '''' addrA 0x0800 True, RouteRelease (testRoute 0 '''' addrA 0x0800)])"
    by (simp add: fixture_defs op_defs)
  have s: "state connectedEndpoint = DatagramEndpointStateConnected"
    by (simp add: connectedEndpoint_def)
  show ?thesis
    using route_nonnil_iff_Connected [OF i, of ?c1 connectedEndpoint
                                        "[FindRouteCall 0 '''' addrA 0x0800 True]"]
          route_nonnil_iff_Connected [OF i, of ?c2 "freshEndpoint\<lparr>state := DatagramEndpointStateClosed\<rparr>"
             "[FindRouteCall 0 '''' addrA 0x0800 True, RouteRelease (testRoute 0 '''' addrA 0x0800)]"]
          i r1 r2 s
    by simp
qed

section \<open>The TTL of a written packet\<close>

lemma connectRoute_events:
  "connectRoute env e n a p = (res, evs) \<Longrightarrow>
     \<exists>n' l. evs = [FindRouteCall n' l (Addr a) p (GetMulticastLoop (ops env))]"
  unfolding connectRoute_def Let_def
  by (auto split: sum.splits)

lemma Write_locked_events:
  "Write_locked env opts e = Done (res, evs) \<Longrightarrow> WritePacketCall r' ps pk \<notin> set evs"
  unfolding Write_locked_def Let_def
  by (auto split: if_splits option.splits sum.splits prod.splits dest: connectRoute_events)

lemma Write_locked_ttl:
  "Write_locked env opts e = Done (Inr (r, own, t, tos), evs) \<Longrightarrow> t = selectTTL env e r"
  unfolding Write_locked_def Let_def selectTTL_def
  by (auto split: if_splits option.splits sum.splits prod.splits)

text \<open>
  C5. Every packet that Write hands to the route's WritePacket carries the TTL of the
  stated rule, computed from the route it is written on: the multicast TTL of the
  endpoint if the remote address of the route is a multicast address, otherwise the
  configured TTL when it is not zero, otherwise the default TTL of the route. The write
  options are arbitrary, so this covers the path of the connected route (no destination
  given) and the path of an explicit destination.
\<close>

theorem Write_ttl_rule:
  assumes "Write env pktf opts e = Done (res, evs)"
      and "WritePacketCall r params pkt \<in> set evs"
  shows "TTL params = selectTTL env e r"
proof -
  from assms have nm: "\<not> More opts"
    by (auto simp: Write_def)
  with assms(1) obtain res0 evs0 where wl: "Write_locked env opts e = Done (res0, evs0)"
    by (cases "Write_locked env opts e") (auto simp: Write_def)
  have quiet: "WritePacketCall r params pkt \<notin> set evs0"
    using Write_locked_events [OF wl] .
  show ?thesis
  proof (cases res0)
    case (Inl err)
    with assms(1) nm wl have "evs = evs0" by (simp add: Write_def)
    with assms(2) quiet show ?thesis by simp
  next
    case (Inr x)
    obtain r0 own t tos where x: "x = (r0, own, t, tos)" by (cases x)
    from wl Inr x have wl': "Write_locked env opts e = Done (Inr (r0, own, t, tos), evs0)"
      by simp
    from assms nm wl' quiet
    have "r = r0 \<and> params = \<lparr>Protocol = TransProto (info e), TTL = t, TOS = tos\<rparr>"
      by (auto simp: Write_def Let_def split: if_splits sum.splits)
    with Write_locked_ttl [OF wl'] show ?thesis by simp
  qed
qed

theorem Write_ttl_rule_witness:
  "Write testEnv testBuilder \<lparr>To = None, More = False\<rparr> connectedEndpoint
     = Done ((0, None),
             [RouteAcquire (testRoute 0 '''' addrA 0x0800),
              WritePacketCall (testRoute 0 '''' addrA 0x0800)
                \<lparr>Protocol = 17, TTL = 64, TOS = 0\<rparr> \<lparr>PacketID = 7, Owner = None\<rparr>,
              RouteRelease (testRoute 0 '''' addrA 0x0800)])
   \<and> TTL \<lparr>Protocol = 17, TTL = 64, TOS = 0\<rparr>
     = selectTTL testEnv connectedEndpoint (testRoute 0 '''' addrA 0x0800)
   \<and> Write testEnv testBuilder \<lparr>To = Some \<lparr>NIC = 0, Addr = addrM, Port = 0\<rparr>, More = False\<rparr>
        (freshEndpoint\<lparr>ttl := 9\<rparr>)
     = Done ((0, None),
             [FindRouteCall 0 '''' addrM 0x0800 True,
              WritePacketCall (testRoute 0 '''' addrM 0x0800)
                \<lparr>Protocol = 17, TTL = 1, TOS = 0\<rparr> \<lparr>PacketID = 7, Owner = None\<rparr>,
              RouteRelease (testRoute 0 '''' addrM 0x0800)])
   \<and> TTL \<lparr>Protocol = 17, TTL = 1, TOS = 0\<rparr>
     = selectTTL testEnv (freshEndpoint\<lparr>ttl := 9\<rparr>) (testRoute 0 '''' addrM 0x0800)
   \<and> Write testEnv testBuilder \<lparr>To = Some \<lparr>NIC = 0, Addr = addrB, Port = 0\<rparr>, More = False\<rparr>
        (freshEndpoint\<lparr>ttl := 9\<rparr>)
     = Done ((0, None),
             [FindRouteCall 0 '''' addrB 0x0800 True,
              WritePacketCall (testRoute 0 '''' addrB 0x0800)
                \<lparr>Protocol = 17, TTL = 9, TOS = 0\<rparr> \<lparr>PacketID = 7, Owner = None\<rparr>,
              RouteRelease (testRoute 0 '''' addrB 0x0800)])
   \<and> TTL \<lparr>Protocol = 17, TTL = 9, TOS = 0\<rparr>
     = selectTTL testEnv (freshEndpoint\<lparr>ttl := 9\<rparr>) (testRoute 0 '''' addrB 0x0800)"
proof -
  let ?rA = "testRoute 0 '''' addrA 0x0800"
  let ?rM = "testRoute 0 '''' addrM 0x0800"
  let ?rB = "testRoute 0 '''' addrB 0x0800"
  let ?pk = "\<lparr>PacketID = 7, Owner = None\<rparr>"
  let ?evA = "[RouteAcquire ?rA, WritePacketCall ?rA \<lparr>Protocol = 17, TTL = 64, TOS = 0\<rparr> ?pk,
               RouteRelease ?rA]"
  let ?evM = "[FindRouteCall 0 '''' addrM 0x0800 True,
               WritePacketCall ?rM \<lparr>Protocol = 17, TTL = 1, TOS = 0\<rparr> ?pk, RouteRelease ?rM]"
  let ?evB = "[FindRouteCall 0 '''' addrB 0x0800 True,
               WritePacketCall ?rB \<lparr>Protocol = 17, TTL = 9, TOS = 0\<rparr> ?pk, RouteRelease ?rB]"
  have wA: "Write testEnv testBuilder \<lparr>To = None, More = False\<rparr> connectedEndpoint
              = Done ((0, None), ?evA)"
    by (simp add: fixture_defs op_defs testBuilder_def)
  have wM: "Write testEnv testBuilder \<lparr>To = Some \<lparr>NIC = 0, Addr = addrM, Port = 0\<rparr>, More = False\<rparr>
              (freshEndpoint\<lparr>ttl := 9\<rparr>) = Done ((0, None), ?evM)"
    by (simp add: fixture_defs op_defs testBuilder_def)
  have wB: "Write testEnv testBuilder \<lparr>To = Some \<lparr>NIC = 0, Addr = addrB, Port = 0\<rparr>, More = False\<rparr>
              (freshEndpoint\<lparr>ttl := 9\<rparr>) = Done ((0, None), ?evB)"
    by (simp add: fixture_defs op_defs testBuilder_def)
  have mA: "WritePacketCall ?rA \<lparr>Protocol = 17, TTL = 64, TOS = 0\<rparr> ?pk \<in> set ?evA" by simp
  have mM: "WritePacketCall ?rM \<lparr>Protocol = 17, TTL = 1, TOS = 0\<rparr> ?pk \<in> set ?evM" by simp
  have mB: "WritePacketCall ?rB \<lparr>Protocol = 17, TTL = 9, TOS = 0\<rparr> ?pk \<in> set ?evB" by simp
  from Write_ttl_rule [OF wA mA] Write_ttl_rule [OF wM mM] Write_ttl_rule [OF wB mB] wA wM wB
  show ?thesis by simp
qed

section \<open>Multicast memberships\<close>

lemma membershipNIC_events:
  "membershipNIC env e vNIC vInterfaceAddr vMulticastAddr = (nicID, evs) \<Longrightarrow>
     \<not> list_ex isJoinGroupCall evs \<and> \<not> list_ex isLeaveGroupCall evs"
  unfolding membershipNIC_def Let_def
  by (auto split: if_splits sum.splits)

text \<open>
  C7. Take a membership option whose group address is a multicast address and whose
  NIC resolves to \<open>nicID\<close>, not 0, with the events \<open>evs\<close> of the lookup. If the pair
  (\<open>nicID\<close>, group address) is a key of the map, a join answers port-in-use, changes
  nothing and calls no JoinGroup; if it is not, a leave answers bad-local-address,
  changes nothing and calls no LeaveGroup. A join that the stack accepts adds that one
  key, a leave that the stack accepts removes that one key. The map of an initialised
  endpoint holds every key once.
\<close>

theorem membership_join_leave:
  assumes "IsV4MulticastAddress (decls env) m \<or> IsV6MulticastAddress (decls env) m"
      and "membershipNIC env e vNIC vInterfaceAddr m = (nicID, evs)"
      and "nicID \<noteq> 0"
      and "multicastMemberships e = Some ks"
  shows "(multicastMembership nicID m \<in> set ks
            \<longrightarrow> SetSockOpt env (AddMembershipOption vNIC vInterfaceAddr m) e
                = Done (Some ErrPortInUse, e, evs))
         \<and> (multicastMembership nicID m \<notin> set ks
            \<longrightarrow> SetSockOpt env (RemoveMembershipOption vNIC vInterfaceAddr m) e
                = Done (Some ErrBadLocalAddress, e, evs))
         \<and> \<not> list_ex isJoinGroupCall evs
         \<and> \<not> list_ex isLeaveGroupCall evs
         \<and> (multicastMembership nicID m \<notin> set ks
             \<and> JoinGroup (stack env) (NetProto (info e)) nicID m = None
            \<longrightarrow> SetSockOpt env (AddMembershipOption vNIC vInterfaceAddr m) e
                = Done (None,
                        e\<lparr>multicastMemberships := Some (ks @ [multicastMembership nicID m])\<rparr>,
                        evs @ [JoinGroupCall (NetProto (info e)) nicID m]))
         \<and> (multicastMembership nicID m \<in> set ks
             \<and> LeaveGroup (stack env) (NetProto (info e)) nicID m = None
            \<longrightarrow> SetSockOpt env (RemoveMembershipOption vNIC vInterfaceAddr m) e
                = Done (None,
                        e\<lparr>multicastMemberships := Some (removeAll (multicastMembership nicID m) ks)\<rparr>,
                        evs @ [LeaveGroupCall (NetProto (info e)) nicID m]))
         \<and> set (removeAll (multicastMembership nicID m) ks) = set ks - {multicastMembership nicID m}
         \<and> (distinct ks
            \<longrightarrow> distinct (removeAll (multicastMembership nicID m) ks)
                \<and> (multicastMembership nicID m \<notin> set ks
                    \<longrightarrow> distinct (ks @ [multicastMembership nicID m])))
         \<and> (Init env0 netProto transProto zeroEndpoint = Done e0 \<and> run calls e0 = Done (e, evs0)
            \<longrightarrow> distinct ks)"
proof -
  let ?k = "multicastMembership nicID m"
  have a: "?k \<in> set ks
            \<longrightarrow> SetSockOpt env (AddMembershipOption vNIC vInterfaceAddr m) e
                = Done (Some ErrPortInUse, e, evs)"
    using assms by (auto simp: SetSockOpt_def map_has_def)
  have b: "?k \<notin> set ks
            \<longrightarrow> SetSockOpt env (RemoveMembershipOption vNIC vInterfaceAddr m) e
                = Done (Some ErrBadLocalAddress, e, evs)"
    using assms by (auto simp: SetSockOpt_def map_has_def)
  have c: "\<not> list_ex isJoinGroupCall evs \<and> \<not> list_ex isLeaveGroupCall evs"
    using membershipNIC_events [OF assms(2)] .
  have d: "?k \<notin> set ks \<and> JoinGroup (stack env) (NetProto (info e)) nicID m = None
            \<longrightarrow> SetSockOpt env (AddMembershipOption vNIC vInterfaceAddr m) e
                = Done (None, e\<lparr>multicastMemberships := Some (ks @ [?k])\<rparr>,
                        evs @ [JoinGroupCall (NetProto (info e)) nicID m])"
    using assms by (auto simp: SetSockOpt_def map_has_def map_store_def)
  have f: "?k \<in> set ks \<and> LeaveGroup (stack env) (NetProto (info e)) nicID m = None
            \<longrightarrow> SetSockOpt env (RemoveMembershipOption vNIC vInterfaceAddr m) e
                = Done (None, e\<lparr>multicastMemberships := Some (removeAll ?k ks)\<rparr>,
                        evs @ [LeaveGroupCall (NetProto (info e)) nicID m])"
    using assms by (auto simp: SetSockOpt_def map_has_def map_delete_def)
  have g: "set (removeAll ?k ks) = set ks - {?k}"
    by simp
  have h: "distinct ks \<longrightarrow> distinct (removeAll ?k ks) \<and> (?k \<notin> set ks \<longrightarrow> distinct (ks @ [?k]))"
    by (simp add: distinct_removeAll)
  have i: "distinct ks"
    if "Init env0 netProto transProto zeroEndpoint = Done e0" and "run calls e0 = Done (e, evs0)"
    using run_invariant [OF that(2) Init_invariant [OF that(1)]] assms(4)
    by (simp add: endpointInvariant_def)
  from a b c d f g h i show ?thesis by blast
qed

theorem membership_join_leave_witness:
  "(IsV4MulticastAddress (decls testEnv) addrM \<or> IsV6MulticastAddress (decls testEnv) addrM)
   \<and> membershipNIC testEnv freshEndpoint 2 '''' addrM = (2, [])
   \<and> SetSockOpt testEnv (AddMembershipOption 2 '''' addrM) freshEndpoint
     = Done (None, freshEndpoint\<lparr>multicastMemberships := Some [multicastMembership 2 addrM]\<rparr>,
             [JoinGroupCall 0x0800 2 addrM])
   \<and> SetSockOpt testEnv (AddMembershipOption 2 '''' addrM)
        (freshEndpoint\<lparr>multicastMemberships := Some [multicastMembership 2 addrM]\<rparr>)
     = Done (Some ErrPortInUse,
             freshEndpoint\<lparr>multicastMemberships := Some [multicastMembership 2 addrM]\<rparr>, [])
   \<and> SetSockOpt testEnv (RemoveMembershipOption 2 '''' addrM)
        (freshEndpoint\<lparr>multicastMemberships := Some [multicastMembership 2 addrM]\<rparr>)
     = Done (None, freshEndpoint, [LeaveGroupCall 0x0800 2 addrM])
   \<and> SetSockOpt testEnv (RemoveMembershipOption 2 '''' addrM) freshEndpoint
     = Done (Some ErrBadLocalAddress, freshEndpoint, [])
   \<and> Init testEnv 0x0800 17 zeroEndpoint = Done freshEndpoint
   \<and> run [(testEnv, OpSetSockOpt (AddMembershipOption 2 '''' addrM))] freshEndpoint
     = Done (freshEndpoint\<lparr>multicastMemberships := Some [multicastMembership 2 addrM]\<rparr>,
             [JoinGroupCall 0x0800 2 addrM])
   \<and> distinct [multicastMembership 2 addrM]"
proof -
  let ?e1 = "freshEndpoint\<lparr>multicastMemberships := Some [multicastMembership 2 addrM]\<rparr>"
  let ?calls = "[(testEnv, OpSetSockOpt (AddMembershipOption 2 '''' addrM))]"
  have m: "IsV4MulticastAddress (decls testEnv) addrM \<or> IsV6MulticastAddress (decls testEnv) addrM"
    by (simp add: fixture_defs)
  have n0: "membershipNIC testEnv freshEndpoint 2 '''' addrM = (2, [])"
    by (simp add: fixture_defs op_defs)
  have n1: "membershipNIC testEnv ?e1 2 '''' addrM = (2, [])"
    by (simp add: fixture_defs op_defs)
  have z: "(2 :: NICID) \<noteq> 0" by simp
  have k0: "multicastMemberships freshEndpoint = Some []"
    by (simp add: freshEndpoint_def)
  have k1: "multicastMemberships ?e1 = Some [multicastMembership 2 addrM]"
    by simp
  have i: "Init testEnv 0x0800 17 zeroEndpoint = Done freshEndpoint"
    by (simp add: fixture_defs op_defs)
  have r: "run ?calls freshEndpoint = Done (?e1, [JoinGroupCall 0x0800 2 addrM])"
    by (simp add: fixture_defs op_defs)
  have j: "JoinGroup (stack testEnv) (NetProto (info freshEndpoint)) 2 addrM = None"
          "LeaveGroup (stack testEnv) (NetProto (info ?e1)) 2 addrM = None"
          "NetProto (info freshEndpoint) = 0x0800"
    by (simp_all add: testEnv_def freshEndpoint_def)
  have u: "?e1\<lparr>multicastMemberships := Some []\<rparr> = freshEndpoint"
    by (simp add: freshEndpoint_def)
  from membership_join_leave [OF m n0 z k0, of testEnv "0x0800" 17 freshEndpoint "[]" "[]"]
       membership_join_leave [OF m n1 z k1, of testEnv "0x0800" 17 freshEndpoint ?calls
                                 "[JoinGroupCall 0x0800 2 addrM]"]
       m n0 i r j u
  show ?thesis by simp
qed

section \<open>Connect and the NIC pinning\<close>

lemma findRouteNICs_append: "findRouteNICs (xs @ ys) = findRouteNICs xs @ findRouteNICs ys"
  by (induction xs rule: findRouteNICs.induct) simp_all

lemma connectRoute_pinned_NIC:
  "n \<noteq> 0 \<Longrightarrow> connectRoute env e n a p = (res, evs) \<Longrightarrow> findRouteNICs evs = [n]"
  unfolding connectRoute_def Let_def
  by (auto split: sum.splits)

lemma connectRoute_given_NIC:
  "n \<noteq> 0 \<Longrightarrow>
     connectRoute env e n a p =
       (case FindRoute (stack env) n
               (if isBroadcastOrMulticast env n p (LocalAddress (ID (info e))) then ''''
                else LocalAddress (ID (info e)))
               (Addr a) p (GetMulticastLoop (ops env)) of
          Inl err \<Rightarrow>
            (Inl err,
             [FindRouteCall n
                (if isBroadcastOrMulticast env n p (LocalAddress (ID (info e))) then ''''
                 else LocalAddress (ID (info e)))
                (Addr a) p (GetMulticastLoop (ops env))])
        | Inr r \<Rightarrow>
            (Inr (r, n),
             [FindRouteCall n
                (if isBroadcastOrMulticast env n p (LocalAddress (ID (info e))) then ''''
                 else LocalAddress (ID (info e)))
                (Addr a) p (GetMulticastLoop (ops env))]))"
  unfolding connectRoute_def Let_def
  by (simp split: sum.splits)

text \<open>
  C4, as the code has it. ConnectAndThen (and so Connect) from Closed answers
  invalid-endpoint-state. From Bound or Connected with a NIC pinning (BindNICID not 0), a
  destination NIC that is given and differs from the pinning answers
  invalid-endpoint-state; otherwise, once the address is normalised, the one call of
  FindRoute is made with the pinned NIC, whatever NIC was given. No Connect changes
  BindNICID, so a Connect from Initial does not establish a pinning, and a later Connect
  with another NIC is not refused for its NIC. What that Connect answers is what the
  stack answers: with no pinning and a NIC given, once the address is normalised, it asks
  FindRoute for a route on the given NIC from the local address that the endpoint holds
  (the one the first Connect took from its route; none if that address is a broadcast or
  multicast address). If the stack finds the route, Connect answers nil, holds the new
  route, releases the old one and sets the remote address of the identity to that of the
  new route; if the stack answers an error, Connect answers that error and the endpoint
  is unchanged.
\<close>

theorem Connect_NIC_pinning:
  "(state e = DatagramEndpointStateClosed
      \<longrightarrow> ConnectAndThen env addr f e = (Some ErrInvalidEndpointState, e, [])
          \<and> Connect env addr e = (Some ErrInvalidEndpointState, e, []))
   \<and> ((state e = DatagramEndpointStateBound \<or> state e = DatagramEndpointStateConnected)
       \<and> BindNICID (info e) \<noteq> 0 \<and> NIC addr \<noteq> 0 \<and> NIC addr \<noteq> BindNICID (info e)
      \<longrightarrow> ConnectAndThen env addr f e = (Some ErrInvalidEndpointState, e, [])
          \<and> Connect env addr e = (Some ErrInvalidEndpointState, e, []))
   \<and> ((state e = DatagramEndpointStateBound \<or> state e = DatagramEndpointStateConnected)
       \<and> BindNICID (info e) \<noteq> 0 \<and> (NIC addr = 0 \<or> NIC addr = BindNICID (info e))
       \<and> checkV4MappedLocked env e (addr\<lparr>Port := 0\<rparr>) = Inr (a, p)
      \<longrightarrow> findRouteNICs (snd (snd (ConnectAndThen env addr f e))) = [BindNICID (info e)])
   \<and> BindNICID (info (fst (snd (ConnectAndThen env addr f e)))) = BindNICID (info e)
   \<and> ((state e = DatagramEndpointStateInitial \<or> state e = DatagramEndpointStateBound
        \<or> state e = DatagramEndpointStateConnected)
       \<and> BindNICID (info e) = 0 \<and> NIC addr \<noteq> 0
       \<and> checkV4MappedLocked env e (addr\<lparr>Port := 0\<rparr>) = Inr (a, p)
       \<and> FindRoute (stack env) (NIC addr)
            (if isBroadcastOrMulticast env (NIC addr) p (LocalAddress (ID (info e))) then ''''
             else LocalAddress (ID (info e)))
            (Addr a) p (GetMulticastLoop (ops env)) = Inr r
      \<longrightarrow> fst (Connect env addr e) = None
          \<and> state (fst (snd (Connect env addr e))) = DatagramEndpointStateConnected
          \<and> route (fst (snd (Connect env addr e))) = Some r
          \<and> RemoteAddress (ID (info (fst (snd (Connect env addr e))))) = RouteRemoteAddress r
          \<and> BindNICID (info (fst (snd (Connect env addr e)))) = 0
          \<and> snd (snd (Connect env addr e))
            = FindRouteCall (NIC addr)
                (if isBroadcastOrMulticast env (NIC addr) p (LocalAddress (ID (info e))) then ''''
                 else LocalAddress (ID (info e)))
                (Addr a) p (GetMulticastLoop (ops env))
              # (case route e of Some old \<Rightarrow> [RouteRelease old] | None \<Rightarrow> []))
   \<and> ((state e = DatagramEndpointStateInitial \<or> state e = DatagramEndpointStateBound
        \<or> state e = DatagramEndpointStateConnected)
       \<and> BindNICID (info e) = 0 \<and> NIC addr \<noteq> 0
       \<and> checkV4MappedLocked env e (addr\<lparr>Port := 0\<rparr>) = Inr (a, p)
       \<and> FindRoute (stack env) (NIC addr)
            (if isBroadcastOrMulticast env (NIC addr) p (LocalAddress (ID (info e))) then ''''
             else LocalAddress (ID (info e)))
            (Addr a) p (GetMulticastLoop (ops env)) = Inl err
      \<longrightarrow> Connect env addr e
          = (Some err, e,
             [FindRouteCall (NIC addr)
                (if isBroadcastOrMulticast env (NIC addr) p (LocalAddress (ID (info e))) then ''''
                 else LocalAddress (ID (info e)))
                (Addr a) p (GetMulticastLoop (ops env))]))"
proof -
  let ?l = "if isBroadcastOrMulticast env (NIC addr) p (LocalAddress (ID (info e))) then ''''
            else LocalAddress (ID (info e))"
  let ?call = "FindRouteCall (NIC addr) ?l (Addr a) p (GetMulticastLoop (ops env))"
  have a: "ConnectAndThen env addr g e = (Some ErrInvalidEndpointState, e, [])"
    if "state e = DatagramEndpointStateClosed" for g
    using that by (simp add: ConnectAndThen_def)
  have b: "ConnectAndThen env addr g e = (Some ErrInvalidEndpointState, e, [])"
    if "state e = DatagramEndpointStateBound \<or> state e = DatagramEndpointStateConnected"
       "BindNICID (info e) \<noteq> 0" "NIC addr \<noteq> 0" "NIC addr \<noteq> BindNICID (info e)" for g
    using that by (auto simp: ConnectAndThen_def)
  have c: "findRouteNICs (snd (snd (ConnectAndThen env addr f e))) = [BindNICID (info e)]"
    if s: "state e = DatagramEndpointStateBound \<or> state e = DatagramEndpointStateConnected"
       and pin: "BindNICID (info e) \<noteq> 0"
       and nic: "NIC addr = 0 \<or> NIC addr = BindNICID (info e)"
       and norm: "checkV4MappedLocked env e (addr\<lparr>Port := 0\<rparr>) = Inr (a, p)"
  proof -
    obtain res evs' where cr: "connectRoute env e (BindNICID (info e)) a p = (res, evs')"
      by (cases "connectRoute env e (BindNICID (info e)) a p")
    from connectRoute_pinned_NIC [OF pin cr] have n: "findRouteNICs evs' = [BindNICID (info e)]" .
    from s pin nic norm cr n show ?thesis
      by (auto simp: ConnectAndThen_def Let_def findRouteNICs_append
               split: sum.splits prod.splits option.splits)
  qed
  have d: "BindNICID (info (fst (snd (ConnectAndThen env addr f e)))) = BindNICID (info e)"
  proof (cases "ConnectAndThen env addr f e")
    case (fields err e' evs')
    from ConnectAndThen_shape [OF fields] fields show ?thesis by auto
  qed
  have g: "fst (Connect env addr e) = None
          \<and> state (fst (snd (Connect env addr e))) = DatagramEndpointStateConnected
          \<and> route (fst (snd (Connect env addr e))) = Some r
          \<and> RemoteAddress (ID (info (fst (snd (Connect env addr e))))) = RouteRemoteAddress r
          \<and> BindNICID (info (fst (snd (Connect env addr e)))) = 0
          \<and> snd (snd (Connect env addr e))
            = ?call # (case route e of Some old \<Rightarrow> [RouteRelease old] | None \<Rightarrow> [])"
    if s: "state e = DatagramEndpointStateInitial \<or> state e = DatagramEndpointStateBound
           \<or> state e = DatagramEndpointStateConnected"
       and nopin: "BindNICID (info e) = 0"
       and nic: "NIC addr \<noteq> 0"
       and norm: "checkV4MappedLocked env e (addr\<lparr>Port := 0\<rparr>) = Inr (a, p)"
       and found: "FindRoute (stack env) (NIC addr) ?l (Addr a) p (GetMulticastLoop (ops env)) = Inr r"
  proof -
    have cr: "connectRoute env e (NIC addr) a p = (Inr (r, NIC addr), [?call])"
      using connectRoute_given_NIC [OF nic, of env e a p] found by simp
    from s nopin norm cr show ?thesis
      by (auto simp: Connect_def ConnectAndThen_def Let_def split: option.splits)
  qed
  have h: "Connect env addr e = (Some err, e, [?call])"
    if s: "state e = DatagramEndpointStateInitial \<or> state e = DatagramEndpointStateBound
           \<or> state e = DatagramEndpointStateConnected"
       and nopin: "BindNICID (info e) = 0"
       and nic: "NIC addr \<noteq> 0"
       and norm: "checkV4MappedLocked env e (addr\<lparr>Port := 0\<rparr>) = Inr (a, p)"
       and none: "FindRoute (stack env) (NIC addr) ?l (Addr a) p (GetMulticastLoop (ops env)) = Inl err"
  proof -
    have cr: "connectRoute env e (NIC addr) a p = (Inl err, [?call])"
      using connectRoute_given_NIC [OF nic, of env e a p] none by simp
    from s nopin norm cr show ?thesis
      by (auto simp: Connect_def ConnectAndThen_def Let_def)
  qed
  from a [of f] a [of "\<lambda>_ _ _. None"] b [of f] b [of "\<lambda>_ _ _. None"] c d g h
  show ?thesis
    unfolding Connect_def by blast
qed

theorem Connect_NIC_pinning_witness:
  "ConnectAndThen testEnv \<lparr>NIC = 5, Addr = addrA, Port = 0\<rparr> (\<lambda>_ _ _. None)
      (freshEndpoint\<lparr>state := DatagramEndpointStateClosed\<rparr>)
     = (Some ErrInvalidEndpointState, freshEndpoint\<lparr>state := DatagramEndpointStateClosed\<rparr>, [])
   \<and> Bind testEnv \<lparr>NIC = 0, Addr = addrL, Port = 0\<rparr> freshEndpoint = (None, boundEndpoint)
   \<and> BindNICID (info boundEndpoint) = 1
   \<and> Connect testEnv \<lparr>NIC = 6, Addr = addrA, Port = 0\<rparr> boundEndpoint
     = (Some ErrInvalidEndpointState, boundEndpoint, [])
   \<and> findRouteNICs (snd (snd (ConnectAndThen testEnv \<lparr>NIC = 0, Addr = addrA, Port = 0\<rparr>
                                 (\<lambda>_ _ _. None) boundEndpoint))) = [1]
   \<and> Connect testEnv \<lparr>NIC = 5, Addr = addrA, Port = 0\<rparr> freshEndpoint
     = (None, connectedNIC5, [FindRouteCall 5 '''' addrA 0x0800 True])
   \<and> BindNICID (info connectedNIC5) = 0
   \<and> FindRoute (stack testEnv) 6 addrL addrB 0x0800 True = Inr (testRoute 6 addrL addrB 0x0800)
   \<and> fst (Connect testEnv \<lparr>NIC = 6, Addr = addrB, Port = 0\<rparr> connectedNIC5) = None
   \<and> RemoteAddress (ID (info (fst (snd (Connect testEnv \<lparr>NIC = 6, Addr = addrB, Port = 0\<rparr>
                                            connectedNIC5))))) = addrB
   \<and> snd (snd (Connect testEnv \<lparr>NIC = 6, Addr = addrB, Port = 0\<rparr> connectedNIC5))
     = [FindRouteCall 6 addrL addrB 0x0800 True, RouteRelease (testRoute 5 '''' addrA 0x0800)]
   \<and> FindRoute (stack strictEnv) 6 addrL addrB 0x0800 True = Inl ErrNoRoute
   \<and> Connect strictEnv \<lparr>NIC = 6, Addr = addrB, Port = 0\<rparr> connectedNIC5
     = (Some ErrNoRoute, connectedNIC5, [FindRouteCall 6 addrL addrB 0x0800 True])"
proof -
  let ?closed = "freshEndpoint\<lparr>state := DatagramEndpointStateClosed\<rparr>"
  let ?a5 = "\<lparr>NIC = 5, Addr = addrA, Port = 0\<rparr>"
  let ?a6A = "\<lparr>NIC = 6, Addr = addrA, Port = 0\<rparr>"
  let ?a0 = "\<lparr>NIC = 0, Addr = addrA, Port = 0\<rparr>"
  let ?a6 = "\<lparr>NIC = 6, Addr = addrB, Port = 0\<rparr>"
  let ?rB = "testRoute 6 addrL addrB 0x0800"
  have n0: "checkV4MappedLocked testEnv boundEndpoint (?a0\<lparr>Port := 0\<rparr>) = Inr (?a0, 0x0800)"
    by (simp add: fixture_defs boundEndpoint_def checkV4MappedLocked_def)
  have n6: "checkV4MappedLocked testEnv connectedNIC5 (?a6\<lparr>Port := 0\<rparr>) = Inr (?a6, 0x0800)"
           "checkV4MappedLocked strictEnv connectedNIC5 (?a6\<lparr>Port := 0\<rparr>) = Inr (?a6, 0x0800)"
    by (simp_all add: fixture_defs strictEnv_def connectedNIC5_def checkV4MappedLocked_def)
  have l6: "\<not> isBroadcastOrMulticast testEnv 6 0x0800 addrL"
           "\<not> isBroadcastOrMulticast strictEnv 6 0x0800 addrL"
    by (simp_all add: fixture_defs strictEnv_def isBroadcastOrMulticast_def)
  have f6: "FindRoute (stack testEnv) 6 addrL addrB 0x0800 True = Inr ?rB"
           "FindRoute (stack strictEnv) 6 addrL addrB 0x0800 True = Inl ErrNoRoute"
    by (simp_all add: fixture_defs strictEnv_def)
  have o: "GetMulticastLoop (ops testEnv) = True" "GetMulticastLoop (ops strictEnv) = True"
    by (simp_all add: testEnv_def strictEnv_def)
  have b: "Bind testEnv \<lparr>NIC = 0, Addr = addrL, Port = 0\<rparr> freshEndpoint = (None, boundEndpoint)"
    by (simp add: fixture_defs boundEndpoint_def op_defs)
  have c5: "Connect testEnv ?a5 freshEndpoint
              = (None, connectedNIC5, [FindRouteCall 5 '''' addrA 0x0800 True])"
    by (simp add: fixture_defs connectedNIC5_def op_defs)
  have s: "state ?closed = DatagramEndpointStateClosed"
          "state boundEndpoint = DatagramEndpointStateBound"
          "BindNICID (info boundEndpoint) = 1"
          "state connectedNIC5 = DatagramEndpointStateConnected"
          "BindNICID (info connectedNIC5) = 0"
          "LocalAddress (ID (info connectedNIC5)) = addrL"
          "route connectedNIC5 = Some (testRoute 5 '''' addrA 0x0800)"
          "RouteRemoteAddress ?rB = addrB"
    by (simp_all add: boundEndpoint_def connectedNIC5_def freshEndpoint_def testRoute_def
                      zeroID_def)
  from Connect_NIC_pinning [where e = ?closed and env = testEnv and addr = ?a5
                              and f = "\<lambda>_ _ _. None" and a = ?a5 and p = 0 and r = ?rB
                              and err = ErrNoRoute]
       Connect_NIC_pinning [where e = boundEndpoint and env = testEnv and addr = ?a6A
                              and f = "\<lambda>_ _ _. None" and a = ?a6A and p = 0 and r = ?rB
                              and err = ErrNoRoute]
       Connect_NIC_pinning [where e = boundEndpoint and env = testEnv and addr = ?a0
                              and f = "\<lambda>_ _ _. None" and a = ?a0 and p = "0x0800" and r = ?rB
                              and err = ErrNoRoute]
       Connect_NIC_pinning [where e = connectedNIC5 and env = testEnv and addr = ?a6
                              and f = "\<lambda>_ _ _. None" and a = ?a6 and p = "0x0800" and r = ?rB
                              and err = ErrNoRoute]
       Connect_NIC_pinning [where e = connectedNIC5 and env = strictEnv and addr = ?a6
                              and f = "\<lambda>_ _ _. None" and a = ?a6 and p = "0x0800" and r = ?rB
                              and err = ErrNoRoute]
       n0 n6 l6 f6 o b c5 s
  show ?thesis by simp
qed

text \<open>
  C4 as stated fails in its last part: on a stack whose NIC 6 does not own the local
  address that the first Connect took from its route, Connect from Initial with NIC 5
  and then Connect with NIC 6 to a unicast address does not succeed, with no NIC pinning
  at any moment: the second Connect asks for a route on NIC 6 from the kept local
  address, answers the no-route error of the stack, and leaves the remote address of the
  identity as it was.
\<close>

theorem second_Connect_other_NIC_counterexample:
  "Init strictEnv 0x0800 17 zeroEndpoint = Done freshEndpoint
   \<and> BindNICID (info freshEndpoint) = 0
   \<and> Connect strictEnv \<lparr>NIC = 5, Addr = addrA, Port = 0\<rparr> freshEndpoint
     = (None, connectedNIC5, [FindRouteCall 5 '''' addrA 0x0800 True])
   \<and> BindNICID (info connectedNIC5) = 0
   \<and> \<not> IsV4MulticastAddress (decls strictEnv) addrB
   \<and> \<not> IsV6MulticastAddress (decls strictEnv) addrB
   \<and> Connect strictEnv \<lparr>NIC = 6, Addr = addrB, Port = 0\<rparr> connectedNIC5
     = (Some ErrNoRoute, connectedNIC5, [FindRouteCall 6 addrL addrB 0x0800 True])
   \<and> RemoteAddress (ID (info connectedNIC5)) = addrA"
  by (simp add: fixture_defs strictEnv_def connectedNIC5_def op_defs)

end
